theory Spec2Isabelle
  imports Main "HOL-Library.Product_Lexorder"
begin

section \<open>Python values\<close>

text \<open>
  The entry dictionaries of the parking application hold dynamically typed values. The
  constructors below are the scalar Python types those dictionaries carry: \<open>None\<close>,
  \<open>int\<close> (unbounded), \<open>float\<close>, \<open>str\<close> and \<open>decimal.Decimal\<close>.

  A finite \<open>float\<close> is kept as mantissa and binary exponent (the value \<open>m * 2 ^ e\<close>);
  no arithmetic is done on floats here, only their type and sign are observed. A finite
  \<open>Decimal\<close> is kept as coefficient and decimal exponent (\<open>c * 10 ^ e\<close>).

  A \<open>str\<close> is the list of its code points. The string literals of the program are
  written \<open>str ''...''\<close>, the code points of the given characters. The keys of the
  dictionaries are the field names the program looks up and are kept as plain strings.
\<close>

type_synonym pystr = "nat list"

definition str :: "string \<Rightarrow> pystr" where
  "str s = map of_char s"

datatype pyfloat = Finite (mantissa: int) (exponent: int) | Infinity (negative: bool) | NaN

datatype decimal = Decimal (coefficient: int) (dec_exponent: int)

text \<open>
  A \<open>datetime\<close> is its wall-clock reading in microseconds since 0001-01-01T00:00:00,
  together with the UTC offset (in microseconds) when the value is timezone-aware.
\<close>

datatype datetime = Datetime (wall_us: int) (utcoffset: "int option")

datatype pyval =
    PNone
  | PInt int
  | PFloat pyfloat
  | PStr pystr
  | PDecimal decimal

datatype py_error = AttributeError | TypeError | ValueError | KeyError | OverflowError

type_synonym pydict = "string \<rightharpoonup> pyval"

text \<open>\<open>d.get(k, default)\<close>\<close>

definition dict_get :: "pydict \<Rightarrow> string \<Rightarrow> pyval \<Rightarrow> pyval" where
  "dict_get d k dflt = (case d k of None \<Rightarrow> dflt | Some v \<Rightarrow> v)"

text \<open>
  \<open>str.upper\<close>. The result is the concatenation of the full uppercase mappings of the
  characters, each of them one to three code points (the sharp s, code point 223,
  becomes \<open>SS\<close>). The mapping of a single code point belongs to the Unicode database
  of the interpreter; it is the parameter \<open>toupper\<close>.
\<close>

definition upper :: "(nat \<Rightarrow> pystr) \<Rightarrow> pystr \<Rightarrow> pystr" where
  "upper toupper s = concat (map toupper s)"

text \<open>\<open>v.upper()\<close> on a dynamically typed value: only \<open>str\<close> has the method.\<close>

definition str_upper :: "(nat \<Rightarrow> pystr) \<Rightarrow> pyval \<Rightarrow> py_error + pystr" where
  "str_upper toupper v = (case v of PStr s \<Rightarrow> Inr (upper toupper s) | _ \<Rightarrow> Inl AttributeError)"

text \<open>
  Two strings agree up to letter case, character by character, when corresponding
  characters have the same uppercase mapping.
\<close>

definition same_up_to_case :: "(nat \<Rightarrow> pystr) \<Rightarrow> pystr \<Rightarrow> pystr \<Rightarrow> bool" where
  "same_up_to_case toupper s t = list_all2 (\<lambda>c d. toupper c = toupper d) s t"

text \<open>
  On the 7-bit code points every version of the database maps a to z onto A to Z and
  every other code point onto itself. For 7-bit strings, equality up to letter case is
  equality after folding A to Z onto a to z.
\<close>

definition ascii_upper :: "nat \<Rightarrow> nat" where
  "ascii_upper n = (if 97 \<le> n \<and> n \<le> 122 then n - 32 else n)"

definition ascii_lower :: "nat \<Rightarrow> nat" where
  "ascii_lower n = (if 65 \<le> n \<and> n \<le> 90 then n + 32 else n)"

definition agrees_with_ascii :: "(nat \<Rightarrow> pystr) \<Rightarrow> bool" where
  "agrees_with_ascii toupper = list_all (\<lambda>n. toupper n = [ascii_upper n]) [0..<128]"

definition seven_bit :: "pystr \<Rightarrow> bool" where
  "seven_bit s = list_all (\<lambda>n. n < 128) s"

definition caseless_eq :: "pystr \<Rightarrow> pystr \<Rightarrow> bool" where
  "caseless_eq s t = (map ascii_lower s = map ascii_lower t)"

text \<open>
  The uppercase mapping of the Unicode database on the code points below 256: a to z,
  the accented Latin-1 letters, the micro sign (to the Greek capital mu), the sharp s
  (to \<open>SS\<close>) and y with diaeresis (to code point 376). It serves the examples, which
  hold no code point from 256 on.
\<close>

definition latin1_toupper :: "nat \<Rightarrow> pystr" where
  "latin1_toupper n =
     (if 97 \<le> n \<and> n \<le> 122 then [n - 32]
      else if n = 181 then [924]
      else if n = 223 then [83, 83]
      else if 224 \<le> n \<and> n \<le> 254 \<and> n \<noteq> 247 then [n - 32]
      else if n = 255 then [376]
      else [n])"


section \<open>models/entry.py: ParkingEntry\<close>

text \<open>The attribute \<open>notes\<close> is written \<open>notes'\<close>: the plain word is reserved.\<close>

record ParkingEntry =
  serial :: pyval
  transport_name :: pyval
  vehicle_type :: pyval
  vehicle_number :: pystr
  driver_name :: pyval
  driver_phone :: pyval
  notes' :: pyval
  entry_time :: pyval
  status :: pyval
  parking_fee :: pyval
  payment_status :: pyval
  payment_type :: pyval
  exit_time :: pyval
  created_by :: pyval
  last_modified :: pyval

text \<open>
  \<open>ParkingEntry.__init__(self, data=None)\<close>. The two defaults
  \<open>datetime.now().isoformat()\<close> are evaluated on every call, whether used or not; the
  two clock readings are the parameters \<open>now1\<close> (for \<open>entry_time\<close>) and \<open>now2\<close> (for
  \<open>last_modified\<close>). The only step that can raise is \<open>.upper()\<close> on the vehicle number;
  \<open>toupper\<close> is the uppercase mapping \<open>str.upper\<close> applies.
\<close>

definition ParkingEntry_init ::
  "(nat \<Rightarrow> pystr) \<Rightarrow> pystr \<Rightarrow> pystr \<Rightarrow> pydict option \<Rightarrow> py_error + ParkingEntry" where
  "ParkingEntry_init toupper now1 now2 data0 =
     (let data = (case data0 of None \<Rightarrow> Map.empty | Some d \<Rightarrow> d) in
      case str_upper toupper (dict_get data ''vehicle_number'' (PStr [])) of
        Inl err \<Rightarrow> Inl err
      | Inr vn \<Rightarrow> Inr
         \<lparr> serial = dict_get data ''serial'' (PInt 0),
           transport_name = dict_get data ''transport_name'' (PStr []),
           vehicle_type = dict_get data ''vehicle_type'' (PStr []),
           vehicle_number = vn,
           driver_name = dict_get data ''driver_name'' (PStr (str ''N/A'')),
           driver_phone = dict_get data ''driver_phone'' (PStr (str ''N/A'')),
           notes' = dict_get data ''notes'' (PStr (str ''N/A'')),
           entry_time = dict_get data ''entry_time'' (PStr now1),
           status = dict_get data ''status'' (PStr (str ''Parked'')),
           parking_fee = dict_get data ''parking_fee'' (PInt 0),
           payment_status = dict_get data ''payment_status'' (PStr (str ''Unpaid'')),
           payment_type = dict_get data ''payment_type'' (PStr (str ''N/A'')),
           exit_time = dict_get data ''exit_time'' (PStr (str ''N/A'')),
           created_by = dict_get data ''created_by'' (PStr (str ''System'')),
           last_modified = dict_get data ''last_modified'' (PStr now2) \<rparr>)"

text \<open>\<open>ParkingEntry.to_dict\<close>\<close>

definition to_dict :: "ParkingEntry \<Rightarrow> pydict" where
  "to_dict e =
     [ ''serial'' \<mapsto> serial e,
       ''transport_name'' \<mapsto> transport_name e,
       ''vehicle_type'' \<mapsto> vehicle_type e,
       ''vehicle_number'' \<mapsto> PStr (vehicle_number e),
       ''driver_name'' \<mapsto> driver_name e,
       ''driver_phone'' \<mapsto> driver_phone e,
       ''notes'' \<mapsto> notes' e,
       ''entry_time'' \<mapsto> entry_time e,
       ''status'' \<mapsto> status e,
       ''parking_fee'' \<mapsto> parking_fee e,
       ''payment_status'' \<mapsto> payment_status e,
       ''payment_type'' \<mapsto> payment_type e,
       ''exit_time'' \<mapsto> exit_time e,
       ''created_by'' \<mapsto> created_by e,
       ''last_modified'' \<mapsto> last_modified e ]"


subsection \<open>Timestamps and durations\<close>

text \<open>
  \<open>datetime.timedelta\<close> is normalised: \<open>0 \<le> seconds < 86400\<close> and
  \<open>0 \<le> microseconds < 1000000\<close>, with \<open>days\<close> carrying the sign.
\<close>

datatype timedelta = Timedelta (days: int) (seconds: int) (microseconds: int)

definition timedelta_of_us :: "int \<Rightarrow> timedelta" where
  "timedelta_of_us us =
     Timedelta (us div 86400000000) ((us mod 86400000000) div 1000000) (us mod 1000000)"

text \<open>
  \<open>a - b\<close> on two \<open>datetime\<close> values: both naive, or both aware (then the instants are
  compared); mixing a naive with an aware value raises \<open>TypeError\<close>.
\<close>

definition dt_sub :: "datetime \<Rightarrow> datetime \<Rightarrow> py_error + timedelta" where
  "dt_sub a b =
     (case (utcoffset a, utcoffset b) of
        (None, None) \<Rightarrow> Inr (timedelta_of_us (wall_us a - wall_us b))
      | (Some oa, Some ob) \<Rightarrow> Inr (timedelta_of_us ((wall_us a - oa) - (wall_us b - ob)))
      | _ \<Rightarrow> Inl TypeError)"

text \<open>\<open>a < b\<close> on two \<open>datetime\<close> values, with the same rule for mixed awareness.\<close>

definition dt_less :: "datetime \<Rightarrow> datetime \<Rightarrow> py_error + bool" where
  "dt_less a b =
     (case (utcoffset a, utcoffset b) of
        (None, None) \<Rightarrow> Inr (wall_us a < wall_us b)
      | (Some oa, Some ob) \<Rightarrow> Inr (wall_us a - oa < wall_us b - ob)
      | _ \<Rightarrow> Inl TypeError)"

text \<open>
  \<open>datetime.fromisoformat(v)\<close>. The standard library's parser is a parameter
  \<open>parse\<close> (\<open>None\<close> where it raises \<open>ValueError\<close>); an argument that is not a \<open>str\<close>
  raises \<open>TypeError\<close>.
\<close>

definition fromisoformat :: "(pystr \<Rightarrow> datetime option) \<Rightarrow> pyval \<Rightarrow> py_error + datetime" where
  "fromisoformat parse v =
     (case v of
        PStr s \<Rightarrow> (case parse s of None \<Rightarrow> Inl ValueError | Some d \<Rightarrow> Inr d)
      | _ \<Rightarrow> Inl TypeError)"

text \<open>
  \<open>RATES.get(self.vehicle_type, 100)\<close>. \<open>RATES\<close> comes from \<open>config\<close>, which maps
  vehicle type names to integer daily rates; it is a parameter. A vehicle type that is
  not a \<open>str\<close> is no key of it.
\<close>

definition rates_get :: "(pystr \<rightharpoonup> int) \<Rightarrow> pyval \<Rightarrow> int" where
  "rates_get RATES vt =
     (case vt of
        PStr s \<Rightarrow> (case RATES s of None \<Rightarrow> 100 | Some r \<Rightarrow> r)
      | _ \<Rightarrow> 100)"

text \<open>
  \<open>ParkingEntry.calculate_fee\<close>. \<open>now\<close> is the reading of \<open>datetime.now()\<close>, used
  when the exit time is the sentinel \<open>N/A\<close>.
\<close>

definition calculate_fee ::
  "(pystr \<Rightarrow> datetime option) \<Rightarrow> datetime \<Rightarrow> (pystr \<rightharpoonup> int) \<Rightarrow> ParkingEntry \<Rightarrow> py_error + int" where
  "calculate_fee parse now RATES e =
     (case fromisoformat parse (entry_time e) of
        Inl err \<Rightarrow> Inl err
      | Inr entry_dt \<Rightarrow>
         (case (if exit_time e = PStr (str ''N/A'') then Inr now else fromisoformat parse (exit_time e)) of
            Inl err \<Rightarrow> Inl err
          | Inr exit_dt \<Rightarrow>
             (case dt_sub exit_dt entry_dt of
                Inl err \<Rightarrow> Inl err
              | Inr td \<Rightarrow>
                 Inr ((days td + (if seconds td > 0 then 1 else 0))
                        * rates_get RATES (vehicle_type e)))))"

text \<open>The rate table of the original configuration, as the tests quote it.\<close>

definition config_RATES :: "pystr \<rightharpoonup> int" where
  "config_RATES =
     [str ''Trailer'' \<mapsto> 225, str ''6 Wheeler'' \<mapsto> 150, str ''4 Wheeler'' \<mapsto> 100,
      str ''2 Wheeler'' \<mapsto> 50]"

text \<open>
  The values of \<open>datetime.fromisoformat\<close> at the timestamps used in the examples of this
  theory (2024-01-15 is day 738899 of the proleptic Gregorian calendar, counting
  0001-01-01 as day 0). The offset \<open>+05:30\<close> is 19800 seconds.
\<close>

definition iso_examples :: "pystr \<Rightarrow> datetime option" where
  "iso_examples s =
     (if s = str ''2024-01-15T10:00:00'' then Some (Datetime 63840909600000000 None)
      else if s = str ''2024-01-15T09:00:00'' then Some (Datetime 63840906000000000 None)
      else if s = str ''2024-01-16T10:00:00'' then Some (Datetime 63840996000000000 None)
      else if s = str ''2024-01-16T10:00:01'' then Some (Datetime 63840996001000000 None)
      else if s = str ''2024-01-25T10:00:00'' then Some (Datetime 63841773600000000 None)
      else if s = str ''2024-01-16T10:00:00+05:30''
        then Some (Datetime 63840996000000000 (Some 19800000000))
      else None)"


section \<open>migration/data_migration_plan.py: JsonDataValidator\<close>

text \<open>
  The validator appends formatted messages to two lists. A message is kept here as its
  kind and the index of the entry it is about.
\<close>

datatype verror =
    MissingFields nat "string list"
  | InvalidVehicleType nat
  | EmptyVehicleNumber nat
  | ExitBeforeEntry nat
  | InvalidTimestamp nat
  | NegativeFee nat
  | InvalidFee nat
  | InvalidStatus nat
  | ValidationError nat py_error

datatype vwarning = ParkedHasExitTime nat | ParkedNonZeroFee nat

definition required_fields :: "string list" where
  "required_fields =
     [''serial'', ''transport_name'', ''vehicle_type'', ''vehicle_number'',
      ''entry_time'', ''status'', ''parking_fee'', ''payment_status'']"

definition valid_types :: "pystr list" where
  "valid_types = [str ''Trailer'', str ''6 Wheeler'', str ''4 Wheeler'', str ''2 Wheeler'']"

text \<open>\<open>d[k]\<close>\<close>

definition dict_item :: "pydict \<Rightarrow> string \<Rightarrow> py_error + pyval" where
  "dict_item d k = (case d k of None \<Rightarrow> Inl KeyError | Some v \<Rightarrow> Inr v)"

text \<open>\<open>v in [s1, ..., sn]\<close> for a list of string literals\<close>

definition in_strs :: "pyval \<Rightarrow> pystr list \<Rightarrow> bool" where
  "in_strs v L = (case v of PStr s \<Rightarrow> s \<in> set L | _ \<Rightarrow> False)"

text \<open>
  \<open>str.strip()\<close> removes whitespace from both ends. The whitespace characters are the
  code points \<open>str.isspace\<close> accepts: the ASCII controls 9 to 13 and 28 to 31, the
  space, and the Unicode line, paragraph and space separators.
\<close>

definition is_space :: "nat \<Rightarrow> bool" where
  "is_space n =
     ((9 \<le> n \<and> n \<le> 13) \<or> (28 \<le> n \<and> n \<le> 32) \<or> n = 133 \<or> n = 160 \<or> n = 5760
      \<or> (8192 \<le> n \<and> n \<le> 8202) \<or> n = 8232 \<or> n = 8233 \<or> n = 8239 \<or> n = 8287
      \<or> n = 12288)"

definition strip :: "pystr \<Rightarrow> pystr" where
  "strip s = rev (dropWhile is_space (rev (dropWhile is_space s)))"

definition float_negative :: "pyfloat \<Rightarrow> bool" where
  "float_negative f = (case f of Finite m e \<Rightarrow> m < 0 | Infinity neg \<Rightarrow> neg | NaN \<Rightarrow> False)"

definition float_positive :: "pyfloat \<Rightarrow> bool" where
  "float_positive f = (case f of Finite m e \<Rightarrow> 0 < m | Infinity neg \<Rightarrow> \<not> neg | NaN \<Rightarrow> False)"

text \<open>
  \<open>float(v) < 0\<close>. Only the sign of the converted value is observed. An \<open>int\<close> that
  rounds beyond the largest double raises \<open>OverflowError\<close>; a \<open>str\<close> goes through the
  standard parser, the parameter \<open>parse_float\<close> (\<open>None\<close> where it raises
  \<open>ValueError\<close>); a negative \<open>Decimal\<close> no larger in magnitude than \<open>2 ^ -1075\<close> rounds
  to \<open>-0.0\<close>, which is not below zero.
\<close>

definition float_lt_zero :: "(pystr \<Rightarrow> pyfloat option) \<Rightarrow> pyval \<Rightarrow> py_error + bool" where
  "float_lt_zero parse_float v =
     (case v of
        PNone \<Rightarrow> Inl TypeError
      | PInt n \<Rightarrow> if 2 ^ 1024 - 2 ^ 970 \<le> \<bar>n\<bar> then Inl OverflowError else Inr (n < 0)
      | PFloat f \<Rightarrow> Inr (float_negative f)
      | PStr s \<Rightarrow> (case parse_float s of None \<Rightarrow> Inl ValueError | Some f \<Rightarrow> Inr (float_negative f))
      | PDecimal d \<Rightarrow>
          Inr (coefficient d < 0 \<and>
               (0 \<le> dec_exponent d \<or> 10 ^ nat (- dec_exponent d) < \<bar>coefficient d\<bar> * 2 ^ 1075)))"

text \<open>\<open>v > 0\<close> against the integer literal\<close>

definition py_gt_zero :: "pyval \<Rightarrow> py_error + bool" where
  "py_gt_zero v =
     (case v of
        PNone \<Rightarrow> Inl TypeError
      | PInt n \<Rightarrow> Inr (0 < n)
      | PFloat f \<Rightarrow> Inr (float_positive f)
      | PStr s \<Rightarrow> Inl TypeError
      | PDecimal d \<Rightarrow> Inr (0 < coefficient d))"

text \<open>\<open>if not entry.get('vehicle_number', '').strip()\<close>\<close>

definition check_vehicle_number :: "pydict \<Rightarrow> nat \<Rightarrow> py_error + verror list" where
  "check_vehicle_number entry index =
     (case dict_get entry ''vehicle_number'' (PStr []) of
        PStr s \<Rightarrow> Inr (if strip s = [] then [EmptyVehicleNumber index] else [])
      | _ \<Rightarrow> Inl AttributeError)"

text \<open>
  The body of the first \<open>try\<close> block: the result is the messages it appends, or the
  exception that leaves it.
\<close>

definition timestamps_try :: "(pystr \<Rightarrow> datetime option) \<Rightarrow> pydict \<Rightarrow> nat \<Rightarrow> py_error + verror list" where
  "timestamps_try parse entry index =
     (case dict_item entry ''entry_time'' of
        Inl x \<Rightarrow> Inl x
      | Inr et \<Rightarrow>
         (case fromisoformat parse et of
            Inl x \<Rightarrow> Inl x
          | Inr _ \<Rightarrow>
             if dict_get entry ''exit_time'' PNone \<noteq> PStr (str ''N/A'') then
               (case dict_item entry ''exit_time'' of
                  Inl x \<Rightarrow> Inl x
                | Inr xt \<Rightarrow>
                   (case fromisoformat parse xt of
                      Inl x \<Rightarrow> Inl x
                    | Inr exit_dt \<Rightarrow>
                       (case fromisoformat parse et of
                          Inl x \<Rightarrow> Inl x
                        | Inr entry_dt \<Rightarrow>
                           (case dt_less exit_dt entry_dt of
                              Inl x \<Rightarrow> Inl x
                            | Inr b \<Rightarrow> Inr (if b then [ExitBeforeEntry index] else [])))))
             else Inr []))"

text \<open>The \<open>try\<close> block with its handler \<open>except ValueError\<close>; other exceptions pass.\<close>

definition check_timestamps :: "(pystr \<Rightarrow> datetime option) \<Rightarrow> pydict \<Rightarrow> nat \<Rightarrow> py_error + verror list" where
  "check_timestamps parse entry index =
     (case timestamps_try parse entry index of
        Inl x \<Rightarrow> (if x = ValueError then Inr [InvalidTimestamp index] else Inl x)
      | Inr es \<Rightarrow> Inr es)"

text \<open>The second \<open>try\<close> block, with \<open>except (ValueError, TypeError)\<close>.\<close>

definition check_fee :: "(pystr \<Rightarrow> pyfloat option) \<Rightarrow> pydict \<Rightarrow> nat \<Rightarrow> py_error + verror list" where
  "check_fee parse_float entry index =
     (case dict_item entry ''parking_fee'' of
        Inl x \<Rightarrow> Inl x
      | Inr v \<Rightarrow>
         (case float_lt_zero parse_float v of
            Inl x \<Rightarrow> (if x = ValueError \<or> x = TypeError then Inr [InvalidFee index] else Inl x)
          | Inr b \<Rightarrow> Inr (if b then [NegativeFee index] else [])))"

text \<open>
  The business rule for parked vehicles. The first warning is already appended when the
  fee comparison raises.
\<close>

definition check_parked :: "pydict \<Rightarrow> nat \<Rightarrow> vwarning list \<Rightarrow> py_error option \<times> vwarning list" where
  "check_parked entry index warnings =
     (if dict_get entry ''status'' PNone = PStr (str ''Parked'') then
        (let w1 = warnings @ (if dict_get entry ''exit_time'' PNone \<noteq> PStr (str ''N/A'')
                              then [ParkedHasExitTime index] else [])
         in case py_gt_zero (dict_get entry ''parking_fee'' (PInt 0)) of
              Inl x \<Rightarrow> (Some x, w1)
            | Inr b \<Rightarrow> (None, w1 @ (if b then [ParkedNonZeroFee index] else [])))
      else (None, warnings))"

text \<open>
  \<open>JsonDataValidator._validate_entry_content\<close>. It mutates the two lists; the result
  is the exception that left the method, if any, and the lists as they then are.
\<close>

definition validate_entry_content ::
  "(pystr \<Rightarrow> datetime option) \<Rightarrow> (pystr \<Rightarrow> pyfloat option) \<Rightarrow> pydict \<Rightarrow> nat \<Rightarrow>
     verror list \<Rightarrow> vwarning list \<Rightarrow> py_error option \<times> verror list \<times> vwarning list" where
  "validate_entry_content parse parse_float entry index errs warns =
     (let e1 = errs @ (if \<not> in_strs (dict_get entry ''vehicle_type'' PNone) valid_types
                       then [InvalidVehicleType index] else [])
      in case check_vehicle_number entry index of
           Inl x \<Rightarrow> (Some x, e1, warns)
         | Inr es2 \<Rightarrow>
            (case check_timestamps parse entry index of
               Inl x \<Rightarrow> (Some x, e1 @ es2, warns)
             | Inr es3 \<Rightarrow>
                (case check_fee parse_float entry index of
                   Inl x \<Rightarrow> (Some x, e1 @ es2 @ es3, warns)
                 | Inr es4 \<Rightarrow>
                    (let e5 = e1 @ es2 @ es3 @ es4 @
                              (if \<not> in_strs (dict_get entry ''status'' PNone) [str ''Parked'', str ''Exited'']
                               then [InvalidStatus index] else [])
                     in case check_parked entry index warns of
                          (exc, w) \<Rightarrow> (exc, e5, w)))))"

record validation_stats =
  total_entries :: nat
  parked_vehicles :: nat
  exited_vehicles :: nat
  invalid_entries :: nat

record ValidationResult =
  is_valid :: bool
  errors :: "verror list"
  warnings :: "vwarning list"
  statistics :: validation_stats

text \<open>One iteration of the loop of \<open>validate_json_structure\<close>, with its \<open>try\<close>.\<close>

definition validate_step ::
  "(pystr \<Rightarrow> datetime option) \<Rightarrow> (pystr \<Rightarrow> pyfloat option) \<Rightarrow> nat \<Rightarrow> pydict \<Rightarrow>
     verror list \<times> vwarning list \<times> validation_stats \<Rightarrow> verror list \<times> vwarning list \<times> validation_stats" where
  "validate_step parse parse_float i entry st =
     (case st of (errs, warns, stats) \<Rightarrow>
        (let missing_fields = filter (\<lambda>field. entry field = None) required_fields
         in if missing_fields \<noteq> [] then
              (errs @ [MissingFields i missing_fields], warns,
               stats\<lparr>invalid_entries := invalid_entries stats + 1\<rparr>)
            else
              (case validate_entry_content parse parse_float entry i errs warns of
                 (Some x, errs', warns') \<Rightarrow>
                   (errs' @ [ValidationError i x], warns',
                    stats\<lparr>invalid_entries := invalid_entries stats + 1\<rparr>)
               | (None, errs', warns') \<Rightarrow>
                   (errs', warns',
                    if dict_get entry ''status'' PNone = PStr (str ''Parked'')
                    then stats\<lparr>parked_vehicles := parked_vehicles stats + 1\<rparr>
                    else if dict_get entry ''status'' PNone = PStr (str ''Exited'')
                    then stats\<lparr>exited_vehicles := exited_vehicles stats + 1\<rparr>
                    else stats))))"

fun validate_entries ::
  "(pystr \<Rightarrow> datetime option) \<Rightarrow> (pystr \<Rightarrow> pyfloat option) \<Rightarrow> nat \<Rightarrow> pydict list \<Rightarrow>
     verror list \<times> vwarning list \<times> validation_stats \<Rightarrow> verror list \<times> vwarning list \<times> validation_stats" where
  "validate_entries parse parse_float i [] st = st"
| "validate_entries parse parse_float i (entry # rest) st =
     validate_entries parse parse_float (Suc i) rest (validate_step parse parse_float i entry st)"

text \<open>\<open>JsonDataValidator.validate_json_structure\<close>\<close>

definition validate_json_structure ::
  "(pystr \<Rightarrow> datetime option) \<Rightarrow> (pystr \<Rightarrow> pyfloat option) \<Rightarrow> pydict list \<Rightarrow> ValidationResult" where
  "validate_json_structure parse parse_float data =
     (case validate_entries parse parse_float 0 data
             ([], [], \<lparr>total_entries = length data, parked_vehicles = 0,
                        exited_vehicles = 0, invalid_entries = 0\<rparr>) of
        (errs, warns, stats) \<Rightarrow>
          \<lparr>is_valid = (length errs = 0), errors = errs, warnings = warns, statistics = stats\<rparr>)"

text \<open>
  The invariant on one record, as a predicate on its dictionary: a record whose status
  is \<open>Exited\<close> has an exit time that is not the sentinel, and that exit time is a
  timestamp not before the entry time.
\<close>

definition exit_ordered :: "(pystr \<Rightarrow> datetime option) \<Rightarrow> pydict \<Rightarrow> bool" where
  "exit_ordered parse d =
     (case fromisoformat parse (dict_get d ''exit_time'' PNone) of
        Inl x \<Rightarrow> False
      | Inr exit_dt \<Rightarrow>
         (case fromisoformat parse (dict_get d ''entry_time'' PNone) of
            Inl x \<Rightarrow> False
          | Inr entry_dt \<Rightarrow> dt_less exit_dt entry_dt = Inr False))"

definition exited_has_exit_time :: "(pystr \<Rightarrow> datetime option) \<Rightarrow> pydict \<Rightarrow> bool" where
  "exited_has_exit_time parse d =
     (if dict_get d ''status'' PNone = PStr (str ''Exited'')
      then dict_get d ''exit_time'' PNone \<noteq> PStr (str ''N/A'') \<and> exit_ordered parse d
      else True)"

text \<open>A float literal parser for the examples: it is asked about no string there.\<close>

definition no_float_strings :: "pystr \<Rightarrow> pyfloat option" where
  "no_float_strings s = None"


section \<open>migration/data_migration_plan.py: the parking_entries table\<close>

text \<open>
  The dictionary handed to \<open>_insert_entry\<close>, with the value types \<open>transform_entry\<close>
  gives its keys: text is \<open>str\<close> (\<open>None\<close> where \<open>handle_na\<close> maps the sentinel away),
  timestamps are \<open>datetime\<close>, the serial number is an \<open>int\<close>. The fee is a number;
  \<open>transform_entry\<close> itself always supplies a \<open>Decimal\<close>.
\<close>

datatype number = NInt int | NFloat pyfloat | NDecimal decimal

record db_entry =
  d_serial_number :: int
  d_transport_name :: pystr
  d_vehicle_type :: pystr
  d_vehicle_number :: pystr
  d_driver_name :: "pystr option"
  d_driver_contact :: "pystr option"
  d_location :: "pystr option"
  d_notes :: "pystr option"
  d_entry_time :: datetime
  d_exit_time :: "datetime option"
  d_status :: pystr
  d_fee :: number
  d_payment_status :: pystr
  d_payment_type :: "pystr option"
  d_created_by :: pystr
  d_last_modified :: datetime

text \<open>
  A stored numeric value is an SQLite \<open>INTEGER\<close> or \<open>REAL\<close>. A row of
  \<open>parking_entries\<close> has its columns in the order of the \<open>CREATE TABLE\<close> statement;
  \<open>None\<close> is \<open>NULL\<close>. A timestamp column holds the text the driver's adapter writes
  for a \<open>datetime\<close> (\<open>isoformat(" ")\<close>), which determines the wall-clock reading and the
  offset, so the column is kept as the \<open>datetime\<close> itself. Text columns are compared
  code point by code point.
\<close>

datatype sql_numeric = SqlInteger int | SqlReal pyfloat

record parking_row =
  c_id :: int
  c_serial_number :: int
  c_transport_name :: pystr
  c_vehicle_type :: pystr
  c_vehicle_number :: pystr
  c_driver_name :: "pystr option"
  c_driver_contact :: "pystr option"
  c_location :: "pystr option"
  c_notes :: "pystr option"
  c_entry_time :: datetime
  c_exit_time :: "datetime option"
  c_status :: pystr
  c_fee :: "sql_numeric option"
  c_payment_status :: pystr
  c_payment_type :: "pystr option"
  c_created_by :: pystr
  c_created_at :: pystr
  c_last_modified :: datetime

text \<open>
  The part of the database \<open>_insert_entry\<close> can change: the rows of \<open>parking_entries\<close>
  and the \<open>AUTOINCREMENT\<close> counter kept for it. The schema of
  \<open>initialize_database\<close> has no table of sync metadata. Row identifiers are taken to
  stay below SQLite's limit of \<open>2 ^ 63 - 1\<close>.
\<close>

record database =
  parking_entries :: "parking_row list"
  sqlite_sequence :: int

datatype integrity_failure = NotNullFailed string | CheckFailed string | UniqueFailed "string list"

datatype db_error =
    BindOverflow
  | ProgrammingError
  | IntegrityError integrity_failure

text \<open>
  Binding a parameter. A Python \<open>int\<close> outside the signed 64-bit range raises
  \<open>OverflowError\<close> (\<open>BindOverflow\<close>); a \<open>float\<close> NaN is bound as \<open>NULL\<close>; the driver has
  no adapter for \<open>Decimal\<close> and raises \<open>ProgrammingError\<close>.
\<close>

definition bind_int :: "int \<Rightarrow> db_error + int" where
  "bind_int n = (if - (2 ^ 63) \<le> n \<and> n < 2 ^ 63 then Inr n else Inl BindOverflow)"

definition bind_number :: "number \<Rightarrow> db_error + sql_numeric option" where
  "bind_number v =
     (case v of
        NInt n \<Rightarrow> (case bind_int n of Inl err \<Rightarrow> Inl err | Inr m \<Rightarrow> Inr (Some (SqlInteger m)))
      | NFloat f \<Rightarrow> (case f of NaN \<Rightarrow> Inr None | _ \<Rightarrow> Inr (Some (SqlReal f)))
      | NDecimal d \<Rightarrow> Inl ProgrammingError)"

text \<open>
  The column \<open>fee DECIMAL(10,2)\<close> has NUMERIC affinity: a \<open>REAL\<close> that is a whole number
  strictly inside the 64-bit range is stored as an \<open>INTEGER\<close>.
\<close>

definition float_integer :: "int \<Rightarrow> int \<Rightarrow> int option" where
  "float_integer m e =
     (if 0 \<le> e then Some (m * 2 ^ nat e)
      else if m mod 2 ^ nat (- e) = 0 then Some (m div 2 ^ nat (- e))
      else None)"

definition numeric_affinity :: "sql_numeric option \<Rightarrow> sql_numeric option" where
  "numeric_affinity v =
     (case v of
        Some (SqlReal (Finite m e)) \<Rightarrow>
          (case float_integer m e of
             Some i \<Rightarrow> if - (2 ^ 63) < i \<and> i < 2 ^ 63 - 1 then Some (SqlInteger i) else v
           | None \<Rightarrow> v)
      | _ \<Rightarrow> v)"

text \<open>
  The constraints of the table, in the order SQLite checks them: \<open>NOT NULL\<close>, then the
  \<open>CHECK\<close> constraints in the order of their declaration, then \<open>UNIQUE\<close>. Of the
  \<open>NOT NULL\<close> columns only \<open>fee\<close> can receive \<open>NULL\<close> from a \<open>db_entry\<close>. A \<open>CHECK\<close> on
  \<open>NULL\<close> is not a violation.
\<close>

definition check_in :: "pystr option \<Rightarrow> pystr list \<Rightarrow> bool" where
  "check_in v L = (case v of None \<Rightarrow> True | Some s \<Rightarrow> s \<in> set L)"

definition unique_conflict :: "parking_row list \<Rightarrow> parking_row \<Rightarrow> bool" where
  "unique_conflict rows row =
     (\<exists>r \<in> set rows. c_vehicle_number r = c_vehicle_number row \<and> c_entry_time r = c_entry_time row)"

definition constraint_failure :: "parking_row list \<Rightarrow> parking_row \<Rightarrow> integrity_failure option" where
  "constraint_failure rows row =
     (if c_fee row = None then Some (NotNullFailed ''fee'')
      else if \<not> check_in (Some (c_vehicle_type row))
                      [str ''Trailer'', str ''6 Wheeler'', str ''4 Wheeler'', str ''2 Wheeler'']
        then Some (CheckFailed ''vehicle_type'')
      else if \<not> check_in (Some (c_status row)) [str ''Parked'', str ''Exited'']
        then Some (CheckFailed ''status'')
      else if \<not> check_in (Some (c_payment_status row))
                      [str ''Paid'', str ''Unpaid'', str ''Pending'', str ''Refunded'']
        then Some (CheckFailed ''payment_status'')
      else if \<not> check_in (c_payment_type row) [str ''Cash'', str ''Card'', str ''UPI'']
        then Some (CheckFailed ''payment_type'')
      else if unique_conflict rows row
        then Some (UniqueFailed [''vehicle_number'', ''entry_time''])
      else None)"

text \<open>
  \<open>AUTOINCREMENT\<close>: the new identifier is one more than the largest identifier the table
  has ever held.
\<close>

definition new_rowid :: "database \<Rightarrow> int" where
  "new_rowid db = fold max (map c_id (parking_entries db)) (sqlite_sequence db) + 1"

text \<open>
  \<open>MigrationExecutor._insert_entry\<close>: one \<open>INSERT\<close> statement. The parameters are bound
  in order (the serial number before the fee), then the row is checked and stored.
  \<open>current_timestamp\<close> is the text SQLite's clock gives for the default of
  \<open>created_at\<close>. The result is the exception raised, if any, and the database as it
  then is: a statement that fails changes nothing.
\<close>

definition insert_entry :: "pystr \<Rightarrow> database \<Rightarrow> db_entry \<Rightarrow> db_error option \<times> database" where
  "insert_entry current_timestamp db entry =
     (case bind_int (d_serial_number entry) of
        Inl err \<Rightarrow> (Some err, db)
      | Inr serial_number \<Rightarrow>
         (case bind_number (d_fee entry) of
            Inl err \<Rightarrow> (Some err, db)
          | Inr fee \<Rightarrow>
             (let row =
                \<lparr> c_id = new_rowid db,
                  c_serial_number = serial_number,
                  c_transport_name = d_transport_name entry,
                  c_vehicle_type = d_vehicle_type entry,
                  c_vehicle_number = d_vehicle_number entry,
                  c_driver_name = d_driver_name entry,
                  c_driver_contact = d_driver_contact entry,
                  c_location = d_location entry,
                  c_notes = d_notes entry,
                  c_entry_time = d_entry_time entry,
                  c_exit_time = d_exit_time entry,
                  c_status = d_status entry,
                  c_fee = numeric_affinity fee,
                  c_payment_status = d_payment_status entry,
                  c_payment_type = d_payment_type entry,
                  c_created_by = d_created_by entry,
                  c_created_at = current_timestamp,
                  c_last_modified = d_last_modified entry \<rparr>
              in case constraint_failure (parking_entries db) row of
                   Some failure \<Rightarrow> (Some (IntegrityError failure), db)
                 | None \<Rightarrow>
                     (None, db\<lparr>parking_entries := parking_entries db @ [row],
                               sqlite_sequence := c_id row\<rparr>))))"

text \<open>
  The natural key of an entry is already in the table: some row has its vehicle number
  and its entry time.
\<close>

definition key_exists :: "database \<Rightarrow> db_entry \<Rightarrow> bool" where
  "key_exists db entry =
     (\<exists>r \<in> set (parking_entries db).
        c_vehicle_number r = d_vehicle_number entry \<and> c_entry_time r = d_entry_time entry)"

text \<open>
  Example data. The table holds one Trailer. The entry is what \<open>transform_entry\<close>
  builds for a JSON record of the same vehicle with the same entry time and the fee
  \<open>225\<close>: the fee is \<open>Decimal(str(225))\<close>, the sentinel payment type is mapped to
  \<open>None\<close>.
\<close>

definition one_trailer_db :: database where
  "one_trailer_db =
     \<lparr> parking_entries =
         [\<lparr> c_id = 1, c_serial_number = 1, c_transport_name = str ''Test Transport A'',
            c_vehicle_type = str ''Trailer'', c_vehicle_number = str ''TEST001'',
            c_driver_name = Some (str ''Driver A''), c_driver_contact = Some (str ''1234567890''),
            c_location = None, c_notes = Some (str ''Test notes A''),
            c_entry_time = Datetime 63840909600000000 None, c_exit_time = None,
            c_status = str ''Parked'', c_fee = Some (SqlInteger 225),
            c_payment_status = str ''Unpaid'', c_payment_type = None,
            c_created_by = str ''System'', c_created_at = str ''2024-01-15 10:00:05'',
            c_last_modified = Datetime 63840909600000000 None \<rparr>],
       sqlite_sequence = 1 \<rparr>"

definition trailer_entry :: db_entry where
  "trailer_entry =
     \<lparr> d_serial_number = 1, d_transport_name = str ''Test Transport A'',
       d_vehicle_type = str ''Trailer'', d_vehicle_number = str ''TEST001'',
       d_driver_name = Some (str ''Driver A''), d_driver_contact = Some (str ''1234567890''),
       d_location = None, d_notes = Some (str ''Test notes A''),
       d_entry_time = Datetime 63840909600000000 None, d_exit_time = None,
       d_status = str ''Parked'', d_fee = NDecimal (Decimal 225 0),
       d_payment_status = str ''Unpaid'', d_payment_type = None,
       d_created_by = str ''System'',
       d_last_modified = Datetime 63840909600000000 None \<rparr>"


section \<open>Inputs and predicates used in the statements\<close>

text \<open>\<open>data.get("vehicle_number", "")\<close>: the vehicle number the input gives.\<close>

definition given_vehicle_number :: "pydict option \<Rightarrow> pyval" where
  "given_vehicle_number data0 =
     dict_get (case data0 of None \<Rightarrow> Map.empty | Some d \<Rightarrow> d) ''vehicle_number'' (PStr [])"

text \<open>\<open>data.get("parking_fee", 0)\<close>: the fee the input gives.\<close>

definition given_parking_fee :: "pydict option \<Rightarrow> pyval" where
  "given_parking_fee data0 =
     dict_get (case data0 of None \<Rightarrow> Map.empty | Some d \<Rightarrow> d) ''parking_fee'' (PInt 0)"

definition is_decimal :: "pyval \<Rightarrow> bool" where
  "is_decimal v = (case v of PDecimal d \<Rightarrow> True | _ \<Rightarrow> False)"

definition is_float :: "pyval \<Rightarrow> bool" where
  "is_float v = (case v of PFloat f \<Rightarrow> True | _ \<Rightarrow> False)"

text \<open>Vehicle numbers given in lower case, in mixed case and with Latin-1 letters.\<close>

definition lowercase_plate_data :: pydict where
  "lowercase_plate_data = [''vehicle_number'' \<mapsto> PStr (str ''mh12ab1234'')]"

definition mixedcase_plate_data :: pydict where
  "mixedcase_plate_data = [''vehicle_number'' \<mapsto> PStr (str ''Mh12aB1234'')]"

definition sharp_s_plate_data :: pydict where
  "sharp_s_plate_data = [''vehicle_number'' \<mapsto> PStr [233, 223, 49]]"

text \<open>The entry of the integration tests, with its fee written \<open>225.0\<close>.\<close>

definition float_fee_data :: pydict where
  "float_fee_data =
     [''transport_name'' \<mapsto> PStr (str ''Test Transport''),
      ''vehicle_type'' \<mapsto> PStr (str ''Trailer''),
      ''vehicle_number'' \<mapsto> PStr (str ''TEST123''),
      ''entry_time'' \<mapsto> PStr (str ''2024-01-15T10:00:00''),
      ''parking_fee'' \<mapsto> PFloat (Finite 225 0),
      ''status'' \<mapsto> PStr (str ''Parked''),
      ''payment_status'' \<mapsto> PStr (str ''Unpaid'')]"

text \<open>A record marked \<open>Exited\<close> that still carries the sentinel exit time.\<close>

definition exited_without_exit :: pydict where
  "exited_without_exit =
     [''serial'' \<mapsto> PInt 1,
      ''transport_name'' \<mapsto> PStr (str ''Test Transport B''),
      ''vehicle_type'' \<mapsto> PStr (str ''4 Wheeler''),
      ''vehicle_number'' \<mapsto> PStr (str ''TEST002''),
      ''entry_time'' \<mapsto> PStr (str ''2024-01-15T10:00:00''),
      ''exit_time'' \<mapsto> PStr (str ''N/A''),
      ''status'' \<mapsto> PStr (str ''Exited''),
      ''parking_fee'' \<mapsto> PInt 100,
      ''payment_status'' \<mapsto> PStr (str ''Paid'')]"

text \<open>A record that left an hour after it came.\<close>

definition exited_after_hour :: pydict where
  "exited_after_hour =
     [''serial'' \<mapsto> PInt 2,
      ''transport_name'' \<mapsto> PStr (str ''Test Transport B''),
      ''vehicle_type'' \<mapsto> PStr (str ''4 Wheeler''),
      ''vehicle_number'' \<mapsto> PStr (str ''TEST002''),
      ''entry_time'' \<mapsto> PStr (str ''2024-01-15T09:00:00''),
      ''exit_time'' \<mapsto> PStr (str ''2024-01-15T10:00:00''),
      ''status'' \<mapsto> PStr (str ''Exited''),
      ''parking_fee'' \<mapsto> PInt 100,
      ''payment_status'' \<mapsto> PStr (str ''Paid'')]"

text \<open>A Trailer that came on 2024-01-15 at 10:00:00 and left at the given time.\<close>

definition trailer_parked :: "pystr \<Rightarrow> ParkingEntry" where
  "trailer_parked exit_iso =
     \<lparr> serial = PInt 1, transport_name = PStr (str ''Test Transport''),
       vehicle_type = PStr (str ''Trailer''), vehicle_number = str ''TEST123'',
       driver_name = PStr (str ''N/A''), driver_phone = PStr (str ''N/A''), notes' = PStr (str ''N/A''),
       entry_time = PStr (str ''2024-01-15T10:00:00''), status = PStr (str ''Exited''),
       parking_fee = PInt 0, payment_status = PStr (str ''Unpaid''), payment_type = PStr (str ''N/A''),
       exit_time = PStr exit_iso, created_by = PStr (str ''System''),
       last_modified = PStr (str ''2024-01-15T10:00:00'') \<rparr>"


text \<open>An entry whose fee is supplied as \<open>Decimal('225.00')\<close>.\<close>

definition decimal_fee_data :: pydict where
  "decimal_fee_data =
     [''vehicle_type'' \<mapsto> PStr (str ''Trailer''),
      ''vehicle_number'' \<mapsto> PStr (str ''TEST123''),
      ''parking_fee'' \<mapsto> PDecimal (Decimal 22500 (- 2))]"


section \<open>The synchronisation core\<close>

text \<open>
  The record store, the operation queue, the conflict resolver and the sync orchestrator
  (\<open>local_database\<close>, \<open>offline_queue\<close>, \<open>conflict_resolver\<close> and \<open>sync_service\<close> in the
  imports of \<open>tests/test_api_integration.py\<close>) are not among the source files; only
  their tests are. Every definition of this section is therefore written from the
  specification, and says so.
\<close>

subsection \<open>Data model\<close>

text \<open>
  Modelled from the spec: the status of an entity, "status in {Parked, Exited}" (section
  3; the entity class is not among the sources).
\<close>

datatype entity_status = Parked | Exited

text \<open>
  Modelled from the spec: the payment status of an entity, "payment status in {Unpaid,
  Paid, Pending, Refunded}" (section 3; not among the sources).
\<close>

datatype pay_status = Unpaid | Paid | PaymentPending | Refunded

text \<open>
  Modelled from the spec: the created-by origin tag, "System/local vs remote" (section 3;
  not among the sources).
\<close>

datatype origin_tag = LocalOrigin | RemoteOrigin

text \<open>
  Modelled from the spec: the attributes of an entity (section 3; the class is not among
  the sources). Timestamps are microseconds; the fee is fixed-point, an integer number
  of hundredths. The local identifier and the remote identifier are kept beside the
  entity, in its stored row and its sync metadata.
\<close>

record entity =
  vehicle :: string
  descriptive :: string
  entered :: int
  departed :: "int option"
  state :: entity_status
  fee :: int
  payment :: pay_status
  remarks :: string
  modified :: int
  origin :: origin_tag

text \<open>
  Modelled from the spec: the natural key (section 3, glossary), the pair of vehicle
  number and entry time; no source file defines it.
\<close>

definition natural_key :: "entity \<Rightarrow> string \<times> int" where
  "natural_key e = (vehicle e, entered e)"


subsection \<open>Conflict resolver\<close>

text \<open>
  Modelled from the spec: the conflict classifications of section 4.3
  (\<open>conflict_resolver\<close> is not among the sources).
\<close>

datatype conflict_type = UpdateUpdate | DeleteUpdate | UpdateDelete | CreateCreate

text \<open>
  Modelled from the spec: the resolutions of a conflict record (section 3; not among the
  sources).
\<close>

datatype resolution = Unresolved | UseLocal | UseRemote | Merged

text \<open>
  Modelled from the spec: one side's version of an entity as \<open>detect\<close> receives it
  (section 4.3; not among the sources). A side may have removed the record.
\<close>

datatype snapshot = Removed | Live entity

text \<open>
  Modelled from the spec: the conflict record of section 3 (not among the sources),
  without its identifier, creation time and notes, which \<open>detect\<close> does not decide.
\<close>

record conflict =
  classification :: conflict_type
  local_snapshot :: snapshot
  remote_snapshot :: snapshot
  merged_result :: "entity option"
  resolved_as :: resolution

text \<open>
  Modelled from the spec: the rule "status resolves to whichever side reports the more
  terminal state (Exited outranks Parked)" of section 4.3 (not among the sources).
\<close>

definition merge_status :: "entity_status \<Rightarrow> entity_status \<Rightarrow> entity_status" where
  "merge_status a b = (if a = Exited \<or> b = Exited then Exited else Parked)"

text \<open>
  Modelled from the spec: the rule "fee resolves to the larger of the two values" of
  section 4.3 (not among the sources).
\<close>

definition merge_fee :: "int \<Rightarrow> int \<Rightarrow> int" where
  "merge_fee a b = max a b"

text \<open>
  Modelled from the spec: the rule "payment status resolves toward Paid over
  Unpaid/Pending" of section 4.3 (not among the sources). Equal values need no rule; any
  other pair of different values is covered by none, which forces manual resolution.
\<close>

definition merge_payment :: "pay_status \<Rightarrow> pay_status \<Rightarrow> pay_status option" where
  "merge_payment a b =
     (if a = b then Some a
      else if a = Paid \<and> (b = Unpaid \<or> b = PaymentPending) then Some Paid
      else if b = Paid \<and> (a = Unpaid \<or> a = PaymentPending) then Some Paid
      else None)"

text \<open>
  Modelled from the spec: "differing business fields: status, payment status, or fee"
  (section 4.3; not among the sources).
\<close>

definition business_fields_differ :: "entity \<Rightarrow> entity \<Rightarrow> bool" where
  "business_fields_differ l r = (state l \<noteq> state r \<or> payment l \<noteq> payment r \<or> fee l \<noteq> fee r)"

text \<open>
  Modelled from the spec: the exit time under the status rule of section 4.3 (not among
  the sources). By section 3 an Exited record always carries its exit time, so the side
  that reports the more terminal state reports the exit time with it, and the merged
  record takes both from that side. When the two sides report the same status, a
  difference in their exit times is covered by no rule.
\<close>

definition merge_departed :: "entity \<Rightarrow> entity \<Rightarrow> int option option" where
  "merge_departed l r =
     (if state l = state r then (if departed l = departed r then Some (departed l) else None)
      else if state l = Exited then Some (departed l)
      else Some (departed r))"

text \<open>
  Modelled from the spec: the fields no merge rule covers (section 4.3: "any field not
  covered by a rule forces manual resolution"; not among the sources). The last-modified
  time is not one of them: it is what diverges in every update conflict.
\<close>

definition other_fields_agree :: "entity \<Rightarrow> entity \<Rightarrow> bool" where
  "other_fields_agree l r =
     (vehicle l = vehicle r \<and> descriptive l = descriptive r \<and> entered l = entered r \<and>
      remarks l = remarks r \<and> origin l = origin r)"

text \<open>
  Modelled from the spec: the classification of section 4.3 (not among the sources). A
  removed side gives \<open>DeleteUpdate\<close> or \<open>UpdateDelete\<close>; diverging last-modified times
  with differing business fields give \<open>UpdateUpdate\<close>; two local-origin records on one
  natural key give \<open>CreateCreate\<close>.
\<close>

definition classify :: "snapshot \<Rightarrow> snapshot \<Rightarrow> conflict_type option" where
  "classify local remote =
     (case local of
        Removed \<Rightarrow> (case remote of Removed \<Rightarrow> None | Live r \<Rightarrow> Some DeleteUpdate)
      | Live l \<Rightarrow>
         (case remote of
            Removed \<Rightarrow> Some UpdateDelete
          | Live r \<Rightarrow>
             if modified l \<noteq> modified r \<and> business_fields_differ l r then Some UpdateUpdate
             else if origin l = LocalOrigin \<and> origin r = LocalOrigin \<and>
                     natural_key l = natural_key r then Some CreateCreate
             else None))"

text \<open>
  Modelled from the spec: the automatic resolution policy of section 4.3 (not among the
  sources). It applies when the two last-modified times are within the configured
  window, every field outside the rules agrees and the rules cover the payment statuses
  and the exit times; the merged record takes the later last-modified time.
\<close>

definition auto_merge :: "int \<Rightarrow> entity \<Rightarrow> entity \<Rightarrow> entity option" where
  "auto_merge window l r =
     (if \<bar>modified l - modified r\<bar> \<le> window \<and> other_fields_agree l r then
        (case merge_payment (payment l) (payment r) of
           None \<Rightarrow> None
         | Some p \<Rightarrow>
            (case merge_departed l r of
               None \<Rightarrow> None
             | Some x \<Rightarrow>
                Some (l\<lparr> departed := x,
                        state := merge_status (state l) (state r),
                        fee := merge_fee (fee l) (fee r),
                        payment := p,
                        modified := max (modified l) (modified r) \<rparr>)))
      else None)"

text \<open>
  Modelled from the spec: \<open>detect(local, remote) -> Conflict | None\<close> of section 4.3 (not
  among the sources). Field-equal snapshots are no conflict; automatic resolution is
  tried on \<open>UpdateUpdate\<close> only.
\<close>

definition detect :: "int \<Rightarrow> snapshot \<Rightarrow> snapshot \<Rightarrow> conflict option" where
  "detect window local remote =
     (if local = remote then None
      else
        (case classify local remote of
           None \<Rightarrow> None
         | Some c \<Rightarrow>
            (let m = (case local of
                        Removed \<Rightarrow> None
                      | Live l \<Rightarrow>
                         (case remote of
                            Removed \<Rightarrow> None
                          | Live r \<Rightarrow> if c = UpdateUpdate then auto_merge window l r else None))
             in Some \<lparr> classification = c, local_snapshot = local, remote_snapshot = remote,
                       merged_result = m,
                       resolved_as = (if m = None then Unresolved else Merged) \<rparr>)))"


subsection \<open>Operation queue\<close>

text \<open>
  Modelled from the spec: the operation types of section 3 (\<open>offline_queue\<close> is not
  among the sources).
\<close>

datatype op_type = Create | Update | Delete

text \<open>
  Modelled from the spec: the operation statuses of section 3 (not among the sources).
\<close>

datatype op_status = OpPending | OpProcessing | OpCompleted | OpFailed

text \<open>
  Modelled from the spec: the queue operation of section 3 (not among the sources), with
  the enqueue time that the ordering of \<open>dequeue_ready\<close> refers to.
\<close>

record operation =
  op_id :: nat
  op_kind :: op_type
  target :: nat
  payload :: string
  priority :: int
  op_state :: op_status
  attempts :: nat
  next_retry :: int
  last_error :: "string option"
  enqueued_at :: int

text \<open>
  Modelled from the spec: the queue's durable state (section 4.2; not among the
  sources): the operations in the order they were enqueued, and the next identifier.
\<close>

record op_queue =
  operations :: "operation list"
  next_op_id :: nat

text \<open>
  Modelled from the spec: the queue with nothing enqueued yet (section 4.2; not among
  the sources).
\<close>

definition empty_queue :: op_queue where
  "empty_queue = \<lparr>operations = [], next_op_id = 0\<rparr>"

text \<open>
  Modelled from the spec: \<open>enqueue(type, target, payload, priority) -> operation_id\<close> of
  section 4.2 (not among the sources). A new operation is pending, untried and eligible
  at once; \<open>now\<close> is the clock at the call.
\<close>

definition enqueue :: "int \<Rightarrow> op_type \<Rightarrow> nat \<Rightarrow> string \<Rightarrow> int \<Rightarrow> op_queue \<Rightarrow> nat \<times> op_queue" where
  "enqueue now kind tgt pl prio q =
     (next_op_id q,
      q\<lparr> operations := operations q @
            [\<lparr> op_id = next_op_id q, op_kind = kind, target = tgt, payload = pl,
               priority = prio, op_state = OpPending, attempts = 0, next_retry = now,
               last_error = None, enqueued_at = now \<rparr>],
         next_op_id := Suc (next_op_id q) \<rparr>)"

text \<open>
  Modelled from the spec: "eligibility requires status=pending AND next-eligible-retry
  \<le> now" (section 4.2; not among the sources).
\<close>

definition eligible :: "int \<Rightarrow> operation \<Rightarrow> bool" where
  "eligible now op = (op_state op = OpPending \<and> next_retry op \<le> now)"

text \<open>
  Modelled from the spec: \<open>dequeue_ready(limit)\<close> of section 4.2 (not among the sources):
  the eligible operations, "priority ascending, then enqueue time ascending", at most
  \<open>limit\<close> of them. The sort is stable, so operations equal in both keep their enqueue
  order.
\<close>

definition dequeue_ready :: "int \<Rightarrow> nat \<Rightarrow> op_queue \<Rightarrow> operation list" where
  "dequeue_ready now limit q =
     take limit (sort_key (\<lambda>op. (priority op, enqueued_at op))
                   (filter (eligible now) (operations q)))"

text \<open>
  Modelled from the spec: \<open>mark_failed(op_id, error, retry_delay)\<close> of section 4.2 (not
  among the sources): the operation returns to pending, becomes eligible again at
  \<open>now + retry_delay\<close>, and its attempt count grows by one.
\<close>

definition mark_failed :: "int \<Rightarrow> nat \<Rightarrow> string \<Rightarrow> int \<Rightarrow> op_queue \<Rightarrow> op_queue" where
  "mark_failed now ident err retry_delay q =
     q\<lparr> operations :=
          map (\<lambda>op. if op_id op = ident
                     then op\<lparr> op_state := OpPending, attempts := Suc (attempts op),
                              next_retry := now + retry_delay, last_error := Some err \<rparr>
                     else op)
              (operations q) \<rparr>"

text \<open>
  Modelled from the spec: the scenario of section 8, three operations enqueued with
  priorities 2, 1 and 1 at the times \<open>t1\<close>, \<open>t2\<close> and \<open>t3\<close>.
\<close>

definition three_enqueued :: "int \<Rightarrow> int \<Rightarrow> int \<Rightarrow> op_queue" where
  "three_enqueued t1 t2 t3 =
     snd (enqueue t3 Update 12 ''TEST003'' 1
       (snd (enqueue t2 Create 11 ''TEST002'' 1
         (snd (enqueue t1 Update 10 ''TEST001'' 2 empty_queue)))))"


subsection \<open>Record store\<close>

text \<open>
  Modelled from the spec: the sync status of section 3 (\<open>local_database\<close> is not among
  the sources).
\<close>

datatype sync_status = SyncPending | Syncing | Synced | InConflict

text \<open>
  Modelled from the spec: the sync metadata row of section 3 (not among the sources);
  its key, the local identifier, is in the stored row.
\<close>

record sync_metadata =
  remote_id :: "nat option"
  sync_state :: sync_status
  dirty :: bool
  last_synced :: "int option"

text \<open>
  Modelled from the spec: one entity of the store with its local identifier and its
  metadata row, which are written together (section 4.1; not among the sources).
\<close>

record stored =
  local_id :: nat
  content :: entity
  metadata :: sync_metadata

text \<open>
  Modelled from the spec: the state of the record store (section 4.1; not among the
  sources): the stored entities in creation order and the next local identifier.
\<close>

record record_store =
  stored_rows :: "stored list"
  next_local_id :: nat

text \<open>
  Modelled from the spec: the two errors of the record store (section 7; not among the
  sources).
\<close>

datatype store_error = DuplicateKey | NotFound

text \<open>
  Modelled from the spec: the fresh, empty store of the round-trip property (section 8;
  not among the sources).
\<close>

definition empty_store :: record_store where
  "empty_store = \<lparr>stored_rows = [], next_local_id = 0\<rparr>"

text \<open>
  Modelled from the spec: \<open>create(entity) -> local_id\<close> of section 4.1 (not among the
  sources): it fails with \<open>DuplicateKey\<close> when the natural key is already stored, and
  otherwise stores the entity with metadata \<open>pending\<close>, \<open>dirty = true\<close>.
\<close>

definition create :: "entity \<Rightarrow> record_store \<Rightarrow> store_error + nat \<times> record_store" where
  "create e s =
     (if \<exists>r \<in> set (stored_rows s). natural_key (content r) = natural_key e
      then Inl DuplicateKey
      else Inr (next_local_id s,
                s\<lparr> stored_rows := stored_rows s @
                      [\<lparr> local_id = next_local_id s, content = e,
                         metadata = \<lparr> remote_id = None, sync_state = SyncPending,
                                      dirty = True, last_synced = None \<rparr> \<rparr>],
                   next_local_id := Suc (next_local_id s) \<rparr>))"

text \<open>
  Modelled from the spec: \<open>get_dirty_entities()\<close> of section 4.1 (not among the sources).
\<close>

definition get_dirty_entities :: "record_store \<Rightarrow> stored list" where
  "get_dirty_entities s = filter (\<lambda>r. dirty (metadata r)) (stored_rows s)"

text \<open>
  Modelled from the spec: \<open>upsert_sync_metadata(local_id, fields)\<close> of section 4.1 (not
  among the sources), replacing the metadata row of one entity.
\<close>

definition upsert_sync_metadata :: "nat \<Rightarrow> sync_metadata \<Rightarrow> record_store \<Rightarrow> record_store" where
  "upsert_sync_metadata ident m s =
     s\<lparr> stored_rows := map (\<lambda>r. if local_id r = ident then r\<lparr>metadata := m\<rparr> else r)
                            (stored_rows s) \<rparr>"

text \<open>
  Modelled from the spec: the metadata row of a local identifier (section 4.1; not among
  the sources).
\<close>

definition metadata_of :: "record_store \<Rightarrow> nat \<Rightarrow> sync_metadata option" where
  "metadata_of s ident = map_of (map (\<lambda>r. (local_id r, metadata r)) (stored_rows s)) ident"

text \<open>
  Modelled from the spec: \<open>export_snapshot()\<close> of section 4.1 (not among the sources):
  the stored entities, in order.
\<close>

definition export_snapshot :: "record_store \<Rightarrow> entity list" where
  "export_snapshot s = map content (stored_rows s)"

text \<open>
  Modelled from the spec: \<open>import_snapshot(records)\<close> of section 4.1 (not among the
  sources), the bulk transfer: every record goes through \<open>create\<close>, and the first
  failure fails the import.
\<close>

fun import_snapshot :: "entity list \<Rightarrow> record_store \<Rightarrow> store_error + record_store" where
  "import_snapshot [] s = Inr s"
| "import_snapshot (e # es) s =
     (case create e s of
        Inl err \<Rightarrow> Inl err
      | Inr created \<Rightarrow> import_snapshot es (snd created))"

text \<open>
  Modelled from the spec: the invariant of section 3, "(vehicle number, entry time) is
  unique" (no source file states it).
\<close>

definition unique_keys :: "record_store \<Rightarrow> bool" where
  "unique_keys s = distinct (map (\<lambda>r. natural_key (content r)) (stored_rows s))"

text \<open>
  Modelled from the spec: local identifiers are "assigned at creation, never reused"
  (section 3; not among the sources), so no two stored rows share one.
\<close>

definition unique_ids :: "record_store \<Rightarrow> bool" where
  "unique_ids s = distinct (map local_id (stored_rows s))"


subsection \<open>Sync orchestrator: the push phase\<close>

text \<open>
  Modelled from the spec: the errors of the remote client (section 7; \<open>api_client\<close> and
  \<open>sync_service\<close> are not among the sources). A duplicate-key rejection of a create
  comes with the identifier of the record that already exists, which the orchestrator
  fetches (section 6).
\<close>

datatype remote_error =
    RemoteDuplicateKey nat
  | TransientRemoteFailure
  | PermanentRemoteFailure

text \<open>
  Modelled from the spec: the part of the remote client contract of section 6 that the
  push phase uses (not among the sources). The answers of the remote side during one
  cycle are the functions of this record.
\<close>

record remote_client =
  checkConnectivity :: bool
  createEntry :: "entity \<Rightarrow> remote_error + nat"
  updateEntry :: "nat \<Rightarrow> entity \<Rightarrow> remote_error + unit"

text \<open>
  Modelled from the spec: the counts a phase reports (section 4.4; not among the sources).
\<close>

record cycle_result =
  synced :: nat
  failed :: nat
  conflicts :: nat

text \<open>
  Modelled from the spec: the remote call for one dirty entity (section 4.4; not among
  the sources): a create while the entity has no remote identifier, an update after.
  The result is the remote identifier on success; a duplicate-key rejection of a create
  counts as success (section 6).
\<close>

definition push_call :: "remote_client \<Rightarrow> stored \<Rightarrow> remote_error + nat" where
  "push_call rc row =
     (case remote_id (metadata row) of
        None \<Rightarrow>
          (case createEntry rc (content row) of
             Inr rid \<Rightarrow> Inr rid
           | Inl err \<Rightarrow> (case err of RemoteDuplicateKey rid \<Rightarrow> Inr rid | _ \<Rightarrow> Inl err))
      | Some rid \<Rightarrow>
          (case updateEntry rc rid (content row) of
             Inr u \<Rightarrow> Inr rid
           | Inl err \<Rightarrow> Inl err))"

text \<open>
  Modelled from the spec: whether the remote call for an entity succeeds (section 4.4;
  not among the sources).
\<close>

definition push_succeeds :: "remote_client \<Rightarrow> stored \<Rightarrow> bool" where
  "push_succeeds rc row = (case push_call rc row of Inr rid \<Rightarrow> True | Inl err \<Rightarrow> False)"

text \<open>
  Modelled from the spec: the metadata an entity has after its push (sections 3 and 4.4;
  not among the sources): \<open>synced\<close>, \<open>dirty = false\<close> and the remote identifier on
  success; \<open>pending\<close>, still dirty, on failure.
\<close>

definition pushed_metadata :: "remote_client \<Rightarrow> int \<Rightarrow> stored \<Rightarrow> sync_metadata" where
  "pushed_metadata rc now row =
     (case push_call rc row of
        Inr rid \<Rightarrow> \<lparr> remote_id = Some rid, sync_state = Synced, dirty = False,
                      last_synced = Some now \<rparr>
      | Inl err \<Rightarrow> (metadata row)\<lparr> sync_state := SyncPending, dirty := True \<rparr>)"

text \<open>
  Modelled from the spec: the loop of the push phase (section 4.4; not among the
  sources). Each item is picked up (\<open>syncing\<close>), sent, and its outcome recorded and
  counted; a failure does not stop the loop.
\<close>

fun push_items ::
  "remote_client \<Rightarrow> int \<Rightarrow> stored list \<Rightarrow> record_store \<times> cycle_result \<Rightarrow> record_store \<times> cycle_result" where
  "push_items rc now [] acc = acc"
| "push_items rc now (row # rest) acc =
     (let s1 = upsert_sync_metadata (local_id row) ((metadata row)\<lparr>sync_state := Syncing\<rparr>) (fst acc);
          s2 = upsert_sync_metadata (local_id row) (pushed_metadata rc now row) s1;
          res = (if push_succeeds rc row
                 then (snd acc)\<lparr>synced := synced (snd acc) + 1\<rparr>
                 else (snd acc)\<lparr>failed := failed (snd acc) + 1\<rparr>)
      in push_items rc now rest (s2, res))"

text \<open>
  Modelled from the spec: the push phase (section 4.4; not among the sources). With the
  remote client unreachable the cycle is aborted and nothing changes; otherwise all
  dirty entities are pushed.
\<close>

definition push_phase :: "remote_client \<Rightarrow> int \<Rightarrow> record_store \<Rightarrow> record_store \<times> cycle_result" where
  "push_phase rc now s =
     (if checkConnectivity rc
      then push_items rc now (get_dirty_entities s) (s, \<lparr>synced = 0, failed = 0, conflicts = 0\<rparr>)
      else (s, \<lparr>synced = 0, failed = 0, conflicts = 0\<rparr>))"


subsection \<open>Example states of the synchronisation core\<close>

text \<open>
  Modelled from the spec: the two snapshots of the scenario of section 8 (no source file
  holds them): the local side has seen the vehicle leave and be paid for, the remote
  side, five minutes behind, still has it parked. They differ in status, fee, payment
  status and last-modified time only.
\<close>

definition local_test123 :: entity where
  "local_test123 =
     \<lparr> vehicle = ''TEST123'', descriptive = ''Test Transport'', entered = 63840906000000000,
       departed = Some 63840909000000000, state = Exited, fee = 22500, payment = Paid, remarks = [],
       modified = 63840909600000000, origin = LocalOrigin \<rparr>"

text \<open>
  Modelled from the spec: the remote snapshot of the same scenario (section 8; no source
  file holds it).
\<close>

definition remote_test123 :: entity where
  "remote_test123 =
     local_test123\<lparr> state := Parked, fee := 20000, payment := Unpaid,
                    modified := 63840909300000000 \<rparr>"




text \<open>
  Modelled from the spec: a locally created, parked entity, as in the push scenario of
  section 8 (no source file holds it).
\<close>

definition parked_vehicle :: "string \<Rightarrow> entity" where
  "parked_vehicle number =
     \<lparr> vehicle = number, descriptive = ''Test Transport'', entered = 63840906000000000,
       departed = None, state = Parked, fee = 0, payment = Unpaid, remarks = [],
       modified = 63840906000000000, origin = LocalOrigin \<rparr>"

text \<open>
  Modelled from the spec: a store of three such entities, all dirty and not yet pushed
  (section 8; no source file holds it).
\<close>

definition three_dirty_store :: record_store where
  "three_dirty_store =
     \<lparr> stored_rows =
         [\<lparr> local_id = 0, content = parked_vehicle ''TEST001'',
            metadata = \<lparr>remote_id = None, sync_state = SyncPending, dirty = True, last_synced = None\<rparr> \<rparr>,
          \<lparr> local_id = 1, content = parked_vehicle ''TEST002'',
            metadata = \<lparr>remote_id = None, sync_state = SyncPending, dirty = True, last_synced = None\<rparr> \<rparr>,
          \<lparr> local_id = 2, content = parked_vehicle ''TEST003'',
            metadata = \<lparr>remote_id = None, sync_state = SyncPending, dirty = True, last_synced = None\<rparr> \<rparr>],
       next_local_id = 3 \<rparr>"

text \<open>
  Modelled from the spec: a remote side that is reachable and accepts every create
  except that of TEST002, which fails transiently (section 8; no source file holds it).
\<close>

definition second_fails :: remote_client where
  "second_fails =
     \<lparr> checkConnectivity = True,
       createEntry = (\<lambda>e. if vehicle e = ''TEST002'' then Inl TransientRemoteFailure
                           else Inr (100 + length (vehicle e))),
       updateEntry = (\<lambda>rid e. Inr ()) \<rparr>"


section \<open>String literals\<close>

lemma inj_code_point: "inj (of_char :: char \<Rightarrow> nat)"
  by (rule injI) simp

lemma str_eq_iff [simp]: "str a = str b \<longleftrightarrow> a = b"
  by (simp add: str_def inj_map_eq_map[OF inj_code_point])

lemma str_Nil [simp]: "str [] = []"
  by (simp add: str_def)

lemma str_eq_Nil [simp]: "str a = [] \<longleftrightarrow> a = []"
  by (simp add: str_def)


section \<open>Construction of a ParkingEntry\<close>

lemma init_Inr_vehicle_number:
  "ParkingEntry_init toupper now1 now2 data = Inr e \<Longrightarrow>
     \<exists>s. given_vehicle_number data = PStr s \<and> vehicle_number e = upper toupper s"
  unfolding ParkingEntry_init_def given_vehicle_number_def str_upper_def Let_def
  by (cases "dict_get (case data of None \<Rightarrow> Map.empty | Some d \<Rightarrow> d) ''vehicle_number'' (PStr [])") auto

lemma init_total:
  "given_vehicle_number data = PStr s \<Longrightarrow>
     \<exists>e. ParkingEntry_init toupper now1 now2 data = Inr e \<and> vehicle_number e = upper toupper s"
  unfolding ParkingEntry_init_def given_vehicle_number_def str_upper_def Let_def
  by simp


section \<open>Vehicle numbers are stored in upper case\<close>

lemma ascii_upper_lower: "ascii_upper n = ascii_upper m \<longleftrightarrow> ascii_lower n = ascii_lower m"
  by (auto simp: ascii_upper_def ascii_lower_def split: if_splits)

lemma map_ascii_upper_eq_iff: "map ascii_upper s = map ascii_upper t \<longleftrightarrow> caseless_eq s t"
  unfolding caseless_eq_def
proof (induction s arbitrary: t)
  case Nil
  then show ?case by auto
next
  case (Cons a s)
  then show ?case by (cases t) (auto simp: ascii_upper_lower)
qed

lemma upper_seven_bit:
  "agrees_with_ascii toupper \<Longrightarrow> seven_bit s \<Longrightarrow> upper toupper s = map ascii_upper s"
  by (induction s) (auto simp: agrees_with_ascii_def seven_bit_def upper_def list_all_iff)

lemma upper_same_up_to_case:
  "same_up_to_case toupper s t \<Longrightarrow> upper toupper s = upper toupper t"
  unfolding same_up_to_case_def upper_def
  by (induction rule: list_all2_induct) auto

lemma latin1_agrees_with_ascii: "agrees_with_ascii latin1_toupper"
  by (auto simp: agrees_with_ascii_def list_all_iff latin1_toupper_def ascii_upper_def)

text \<open>
  Claim C10. Whatever dictionary a \<open>ParkingEntry\<close> is built from, and whatever uppercase
  mapping \<open>str.upper\<close> applies, the vehicle number it stores is the given one converted
  to upper case: the constructor succeeds on every string (an absent key counts as the
  empty string), and whenever it succeeds the given value was a string \<open>s\<close> and the
  stored value is \<open>s.upper()\<close>. Hence two entries store the same vehicle number exactly
  when the numbers they were given have the same upper case; they do so whenever the
  given numbers agree up to letter case character by character; and for 7-bit vehicle
  numbers, exactly when the given numbers are equal after folding letter case.
\<close>

theorem vehicle_number_uppercase:
  "(\<forall>s. given_vehicle_number data = PStr s \<longrightarrow>
        (\<exists>e. ParkingEntry_init toupper now1 now2 data = Inr e \<and> vehicle_number e = upper toupper s))
   \<and> (\<forall>e. ParkingEntry_init toupper now1 now2 data = Inr e \<longrightarrow>
        (\<exists>s. given_vehicle_number data = PStr s \<and> vehicle_number e = upper toupper s))
   \<and> (\<forall>s s' e e'. given_vehicle_number data = PStr s \<and> given_vehicle_number data' = PStr s' \<and>
        ParkingEntry_init toupper now1 now2 data = Inr e \<and>
        ParkingEntry_init toupper now1' now2' data' = Inr e' \<longrightarrow>
        (vehicle_number e = vehicle_number e' \<longleftrightarrow> upper toupper s = upper toupper s')
        \<and> (same_up_to_case toupper s s' \<longrightarrow> vehicle_number e = vehicle_number e')
        \<and> (agrees_with_ascii toupper \<and> seven_bit s \<and> seven_bit s' \<longrightarrow>
             vehicle_number e = map ascii_upper s
             \<and> (vehicle_number e = vehicle_number e' \<longleftrightarrow> caseless_eq s s')))"
proof (intro conjI allI impI)
  fix s assume "given_vehicle_number data = PStr s"
  then show "\<exists>e. ParkingEntry_init toupper now1 now2 data = Inr e \<and> vehicle_number e = upper toupper s"
    by (rule init_total)
next
  fix e assume "ParkingEntry_init toupper now1 now2 data = Inr e"
  then show "\<exists>s. given_vehicle_number data = PStr s \<and> vehicle_number e = upper toupper s"
    by (rule init_Inr_vehicle_number)
next
  fix s s' e e'
  assume a: "given_vehicle_number data = PStr s \<and> given_vehicle_number data' = PStr s' \<and>
        ParkingEntry_init toupper now1 now2 data = Inr e \<and>
        ParkingEntry_init toupper now1' now2' data' = Inr e'"
  from a init_Inr_vehicle_number[of toupper now1 now2 data e]
  have 1: "vehicle_number e = upper toupper s" by auto
  from a init_Inr_vehicle_number[of toupper now1' now2' data' e']
  have 2: "vehicle_number e' = upper toupper s'" by auto
  show "vehicle_number e = vehicle_number e' \<longleftrightarrow> upper toupper s = upper toupper s'"
    by (simp add: 1 2)
  show "vehicle_number e = vehicle_number e'" if "same_up_to_case toupper s s'"
    using that by (simp add: 1 2 upper_same_up_to_case)
  assume b: "agrees_with_ascii toupper \<and> seven_bit s \<and> seven_bit s'"
  show "vehicle_number e = map ascii_upper s"
    using b by (simp add: 1 upper_seven_bit)
  show "vehicle_number e = vehicle_number e' \<longleftrightarrow> caseless_eq s s'"
    using b by (simp add: 1 2 upper_seven_bit map_ascii_upper_eq_iff)
qed

theorem vehicle_number_uppercase_witness:
  "(\<exists>e. ParkingEntry_init latin1_toupper (str ''2024-01-15T10:00:00'') (str ''2024-01-15T10:00:00'')
            (Some lowercase_plate_data) = Inr e
        \<and> vehicle_number e = str ''MH12AB1234'')
   \<and> (\<exists>e e'. ParkingEntry_init latin1_toupper (str ''2024-01-15T10:00:00'') (str ''2024-01-15T10:00:00'')
            (Some lowercase_plate_data) = Inr e
        \<and> ParkingEntry_init latin1_toupper (str ''2024-01-15T09:00:00'') (str ''2024-01-15T09:00:00'')
            (Some mixedcase_plate_data) = Inr e'
        \<and> vehicle_number e = vehicle_number e')
   \<and> (\<exists>e. ParkingEntry_init latin1_toupper (str ''2024-01-15T10:00:00'') (str ''2024-01-15T10:00:00'')
            (Some sharp_s_plate_data) = Inr e
        \<and> vehicle_number e = [201, 83, 83, 49])"
proof -
  let ?t = "str ''2024-01-15T10:00:00''" and ?t' = "str ''2024-01-15T09:00:00''"
  note main = vehicle_number_uppercase[of "Some lowercase_plate_data" latin1_toupper ?t ?t
      "Some mixedcase_plate_data" ?t' ?t']
  note sharp = vehicle_number_uppercase[of "Some sharp_s_plate_data" latin1_toupper ?t ?t
      "Some sharp_s_plate_data" ?t ?t]
  have g1: "given_vehicle_number (Some lowercase_plate_data) = PStr (str ''mh12ab1234'')"
    by (simp add: given_vehicle_number_def lowercase_plate_data_def dict_get_def)
  have g2: "given_vehicle_number (Some mixedcase_plate_data) = PStr (str ''Mh12aB1234'')"
    by (simp add: given_vehicle_number_def mixedcase_plate_data_def dict_get_def)
  have g3: "given_vehicle_number (Some sharp_s_plate_data) = PStr [233, 223, 49]"
    by (simp add: given_vehicle_number_def sharp_s_plate_data_def dict_get_def)
  have u1: "upper latin1_toupper (str ''mh12ab1234'') = str ''MH12AB1234''" by code_simp
  have u3: "upper latin1_toupper [233, 223, 49] = [201, 83, 83, 49]" by code_simp
  have c1: "caseless_eq (str ''mh12ab1234'') (str ''Mh12aB1234'')" by code_simp
  have s1: "seven_bit (str ''mh12ab1234'')" "seven_bit (str ''Mh12aB1234'')" by code_simp+
  from main g1 obtain e where e: "ParkingEntry_init latin1_toupper ?t ?t (Some lowercase_plate_data) = Inr e"
    "vehicle_number e = upper latin1_toupper (str ''mh12ab1234'')" by blast
  from init_total[OF g2] obtain e'
    where e': "ParkingEntry_init latin1_toupper ?t' ?t' (Some mixedcase_plate_data) = Inr e'"
    by blast
  from main g1 g2 e(1) e' c1 s1 latin1_agrees_with_ascii
  have eq: "vehicle_number e = vehicle_number e'" by blast
  from sharp g3 obtain e3
    where e3: "ParkingEntry_init latin1_toupper ?t ?t (Some sharp_s_plate_data) = Inr e3"
      "vehicle_number e3 = upper latin1_toupper [233, 223, 49]" by blast
  from e e' eq u1 e3 u3 show ?thesis by auto
qed


section \<open>The fee is the number of started days times the daily rate\<close>

lemma calculate_fee_parsed:
  assumes "entry_time e = PStr n" and "parse n = Some entry_dt"
    and "exit_time e = PStr x" and "x \<noteq> str ''N/A''" and "parse x = Some exit_dt"
  shows "calculate_fee parse now RATES e =
      (case dt_sub exit_dt entry_dt of
         Inl err \<Rightarrow> Inl err
       | Inr td \<Rightarrow> Inr ((days td + (if seconds td > 0 then 1 else 0))
                        * rates_get RATES (vehicle_type e)))"
  using assms by (simp add: calculate_fee_def fromisoformat_def)

lemma dt_sub_elapsed:
  assumes "utcoffset a = None \<longleftrightarrow> utcoffset b = None"
  shows "dt_sub a b =
     Inr (timedelta_of_us ((wall_us a - (case utcoffset a of None \<Rightarrow> 0 | Some off \<Rightarrow> off))
                         - (wall_us b - (case utcoffset b of None \<Rightarrow> 0 | Some off \<Rightarrow> off))))"
  using assms by (cases "utcoffset a"; cases "utcoffset b") (simp_all add: dt_sub_def)

text \<open>
  Claim C9, as stated, fails: two timestamps that both parse need not be subtractable.
  With a naive entry time and an exit time that carries a UTC offset, the subtraction
  raises \<open>TypeError\<close> and so does \<open>calculate_fee\<close>; no fee is returned.
\<close>

theorem calculate_fee_mixed_awareness_raises:
  "entry_time (trailer_parked (str ''2024-01-16T10:00:00+05:30'')) = PStr (str ''2024-01-15T10:00:00'')
   \<and> iso_examples (str ''2024-01-15T10:00:00'') = Some (Datetime 63840909600000000 None)
   \<and> exit_time (trailer_parked (str ''2024-01-16T10:00:00+05:30''))
        = PStr (str ''2024-01-16T10:00:00+05:30'')
   \<and> str ''2024-01-16T10:00:00+05:30'' \<noteq> str ''N/A''
   \<and> iso_examples (str ''2024-01-16T10:00:00+05:30'')
        = Some (Datetime 63840996000000000 (Some 19800000000))
   \<and> calculate_fee iso_examples (Datetime 0 None) config_RATES
        (trailer_parked (str ''2024-01-16T10:00:00+05:30'')) = Inl TypeError"
  by (simp add: trailer_parked_def iso_examples_def calculate_fee_def fromisoformat_def dt_sub_def)

text \<open>
  Claim C9, amended. For an entry whose entry time and exit time are strings the ISO
  parser accepts, the exit time not being the sentinel, and whose two timestamps are
  both naive or both aware, \<open>calculate_fee\<close> returns \<open>d * r\<close>. Here \<open>d\<close> is the number of
  whole days in the elapsed time (the difference of the two instants, in microseconds,
  divided by the 86400000000 microseconds of a day, rounding down), plus one when the
  remainder holds at least a whole second; \<open>r\<close> is the configured rate of the vehicle
  type, 100 when the type has none. A stay of exactly 24 hours is one day, of 24 hours
  and a second two days, and of no time at all zero days and a fee of 0.
\<close>

theorem calculate_fee_days_times_rate:
  assumes "entry_time e = PStr n" and "parse n = Some entry_dt"
    and "exit_time e = PStr x" and "x \<noteq> str ''N/A''" and "parse x = Some exit_dt"
    and "utcoffset exit_dt = None \<longleftrightarrow> utcoffset entry_dt = None"
  shows
    "let elapsed = (wall_us exit_dt - (case utcoffset exit_dt of None \<Rightarrow> 0 | Some off \<Rightarrow> off))
                 - (wall_us entry_dt - (case utcoffset entry_dt of None \<Rightarrow> 0 | Some off \<Rightarrow> off));
         d = elapsed div 86400000000
             + (if 0 < (elapsed mod 86400000000) div 1000000 then 1 else 0);
         r = (case vehicle_type e of
                PStr s \<Rightarrow> (case RATES s of None \<Rightarrow> 100 | Some q \<Rightarrow> q)
              | _ \<Rightarrow> 100)
     in calculate_fee parse now RATES e = Inr (d * r)
        \<and> (elapsed = 86400000000 \<longrightarrow> d = 1)
        \<and> (elapsed = 86401000000 \<longrightarrow> d = 2)
        \<and> (elapsed = 0 \<longrightarrow> d = 0 \<and> calculate_fee parse now RATES e = Inr 0)"
proof -
  define elapsed where
    "elapsed = (wall_us exit_dt - (case utcoffset exit_dt of None \<Rightarrow> 0 | Some off \<Rightarrow> off))
             - (wall_us entry_dt - (case utcoffset entry_dt of None \<Rightarrow> 0 | Some off \<Rightarrow> off))"
  define d where
    "d = elapsed div 86400000000 + (if 0 < (elapsed mod 86400000000) div 1000000 then 1 else 0)"
  define r where
    "r = (case vehicle_type e of
            PStr s \<Rightarrow> (case RATES s of None \<Rightarrow> 100 | Some q \<Rightarrow> q)
          | _ \<Rightarrow> 100)"
  have sub: "dt_sub exit_dt entry_dt = Inr (timedelta_of_us elapsed)"
    unfolding elapsed_def using assms(6) by (rule dt_sub_elapsed)
  have rate: "rates_get RATES (vehicle_type e) = r"
    by (simp add: rates_get_def r_def)
  have fee: "calculate_fee parse now RATES e = Inr (d * r)"
    by (simp add: calculate_fee_parsed[OF assms(1-5)] sub rate timedelta_of_us_def d_def)
  have one: "d = 1" if "elapsed = 86400000000"
    using that by (simp add: d_def)
  have two: "d = 2" if "elapsed = 86401000000"
    using that by (simp add: d_def)
  have zero: "d = 0" if "elapsed = 0"
    using that by (simp add: d_def)
  from fee one two zero
  have "calculate_fee parse now RATES e = Inr (d * r)
        \<and> (elapsed = 86400000000 \<longrightarrow> d = 1)
        \<and> (elapsed = 86401000000 \<longrightarrow> d = 2)
        \<and> (elapsed = 0 \<longrightarrow> d = 0 \<and> calculate_fee parse now RATES e = Inr 0)"
    by auto
  then show ?thesis
    unfolding Let_def elapsed_def d_def r_def .
qed

theorem calculate_fee_days_times_rate_witness:
  "calculate_fee iso_examples (Datetime 0 None) config_RATES
      (trailer_parked (str ''2024-01-16T10:00:00'')) = Inr 225
   \<and> calculate_fee iso_examples (Datetime 0 None) config_RATES
      (trailer_parked (str ''2024-01-16T10:00:01'')) = Inr 450
   \<and> calculate_fee iso_examples (Datetime 0 None) config_RATES
      (trailer_parked (str ''2024-01-15T10:00:00'')) = Inr 0
   \<and> calculate_fee iso_examples (Datetime 0 None) config_RATES
      (trailer_parked (str ''2024-01-25T10:00:00'')) = Inr 2250"
proof -
  let ?entry = "Datetime 63840909600000000 None"
  have vt: "vehicle_type (trailer_parked x) = PStr (str ''Trailer'')" for x
    by (simp add: trailer_parked_def)
  have rt: "config_RATES (str ''Trailer'') = Some 225"
    by (simp add: config_RATES_def)
  have en: "entry_time (trailer_parked x) = PStr (str ''2024-01-15T10:00:00'')" for x
    by (simp add: trailer_parked_def)
  have ex: "exit_time (trailer_parked x) = PStr x" for x
    by (simp add: trailer_parked_def)
  have p0: "iso_examples (str ''2024-01-15T10:00:00'') = Some ?entry"
    by (simp add: iso_examples_def)
  have p1: "iso_examples (str ''2024-01-16T10:00:00'') = Some (Datetime 63840996000000000 None)"
    by (simp add: iso_examples_def)
  have p2: "iso_examples (str ''2024-01-16T10:00:01'') = Some (Datetime 63840996001000000 None)"
    by (simp add: iso_examples_def)
  have p3: "iso_examples (str ''2024-01-25T10:00:00'') = Some (Datetime 63841773600000000 None)"
    by (simp add: iso_examples_def)
  have a: "calculate_fee iso_examples (Datetime 0 None) config_RATES
      (trailer_parked (str ''2024-01-16T10:00:00'')) = Inr 225"
    using calculate_fee_days_times_rate[where e = "trailer_parked (str ''2024-01-16T10:00:00'')"
        and x = "str ''2024-01-16T10:00:00''" and n = "str ''2024-01-15T10:00:00''"
        and parse = iso_examples and entry_dt = "?entry"
        and exit_dt = "Datetime 63840996000000000 None" and now = "Datetime 0 None"
        and RATES = config_RATES]
      en ex p0 p1
    by (simp add: Let_def vt rt)
  have b: "calculate_fee iso_examples (Datetime 0 None) config_RATES
      (trailer_parked (str ''2024-01-16T10:00:01'')) = Inr 450"
    using calculate_fee_days_times_rate[where e = "trailer_parked (str ''2024-01-16T10:00:01'')"
        and x = "str ''2024-01-16T10:00:01''" and n = "str ''2024-01-15T10:00:00''"
        and parse = iso_examples and entry_dt = "?entry"
        and exit_dt = "Datetime 63840996001000000 None" and now = "Datetime 0 None"
        and RATES = config_RATES]
      en ex p0 p2
    by (simp add: Let_def vt rt)
  have c: "calculate_fee iso_examples (Datetime 0 None) config_RATES
      (trailer_parked (str ''2024-01-15T10:00:00'')) = Inr 0"
    using calculate_fee_days_times_rate[where e = "trailer_parked (str ''2024-01-15T10:00:00'')"
        and x = "str ''2024-01-15T10:00:00''" and n = "str ''2024-01-15T10:00:00''"
        and parse = iso_examples and entry_dt = "?entry"
        and exit_dt = "?entry" and now = "Datetime 0 None" and RATES = config_RATES]
      en ex p0 p0
    by (simp add: Let_def vt rt)
  have d: "calculate_fee iso_examples (Datetime 0 None) config_RATES
      (trailer_parked (str ''2024-01-25T10:00:00'')) = Inr 2250"
    using calculate_fee_days_times_rate[where e = "trailer_parked (str ''2024-01-25T10:00:00'')"
        and x = "str ''2024-01-25T10:00:00''" and n = "str ''2024-01-15T10:00:00''"
        and parse = iso_examples and entry_dt = "?entry"
        and exit_dt = "Datetime 63841773600000000 None" and now = "Datetime 0 None"
        and RATES = config_RATES]
      en ex p0 p3
    by (simp add: Let_def vt rt)
  from a b c d show ?thesis by simp
qed


section \<open>How the fee is represented\<close>

text \<open>
  Claim C7, as stated, fails at creation: \<open>ParkingEntry.__init__\<close> does not convert the
  fee. Built from the entry of the integration tests, whose fee is the \<open>float\<close>
  \<open>225.0\<close>, the object holds that \<open>float\<close>, not a \<open>Decimal\<close>.
\<close>

theorem float_fee_stays_float:
  "\<not> isl (ParkingEntry_init latin1_toupper (str ''2024-01-15T10:00:00'') (str ''2024-01-15T10:00:00'') (Some float_fee_data))
   \<and> parking_fee (projr (ParkingEntry_init latin1_toupper (str ''2024-01-15T10:00:00'') (str ''2024-01-15T10:00:00'')
                            (Some float_fee_data))) = PFloat (Finite 225 0)
   \<and> is_float (parking_fee (projr (ParkingEntry_init latin1_toupper (str ''2024-01-15T10:00:00'') (str ''2024-01-15T10:00:00'')
                            (Some float_fee_data))))
   \<and> \<not> is_decimal (parking_fee (projr (ParkingEntry_init latin1_toupper (str ''2024-01-15T10:00:00'') (str ''2024-01-15T10:00:00'')
                            (Some float_fee_data))))"
  by (simp add: ParkingEntry_init_def float_fee_data_def str_upper_def dict_get_def
      is_float_def is_decimal_def)

text \<open>
  Claim C7, amended. A \<open>ParkingEntry\<close> keeps the fee exactly as its input supplies it
  (the integer 0 when the input has none) and \<open>to_dict\<close> hands the same value back: the
  stored fee is a \<open>Decimal\<close> exactly when the supplied one is, and a \<open>float\<close> exactly when
  the supplied one is. \<open>calculate_fee\<close> itself works in integers: what it returns is an
  integer multiple of the integer daily rate.
\<close>

theorem parking_fee_kept_as_given:
  "ParkingEntry_init toupper now1 now2 data = Inr e \<Longrightarrow>
     parking_fee e = given_parking_fee data
     \<and> to_dict e ''parking_fee'' = Some (given_parking_fee data)
     \<and> (is_decimal (parking_fee e) \<longleftrightarrow> is_decimal (given_parking_fee data))
     \<and> (is_float (parking_fee e) \<longleftrightarrow> is_float (given_parking_fee data))
     \<and> (\<forall>parse now RATES v. calculate_fee parse now RATES e = Inr v \<longrightarrow>
           (\<exists>d. v = d * rates_get RATES (vehicle_type e)))"
proof -
  assume init: "ParkingEntry_init toupper now1 now2 data = Inr e"
  have fee: "parking_fee e = given_parking_fee data"
    using init unfolding ParkingEntry_init_def given_parking_fee_def str_upper_def Let_def
    by (cases "dict_get (case data of None \<Rightarrow> Map.empty | Some d \<Rightarrow> d) ''vehicle_number'' (PStr [])")
       auto
  have dict: "to_dict e ''parking_fee'' = Some (parking_fee e)"
    by (simp add: to_dict_def)
  have calc: "\<exists>d. v = d * rates_get RATES (vehicle_type e)"
    if "calculate_fee parse now RATES e = Inr v" for parse now RATES v
    using that unfolding calculate_fee_def
    by (auto split: sum.splits if_splits)
  from fee dict calc show ?thesis by simp
qed

theorem parking_fee_kept_as_given_witness:
  "\<exists>e. ParkingEntry_init latin1_toupper (str ''2024-01-15T10:00:00'') (str ''2024-01-15T10:00:00'') (Some decimal_fee_data) = Inr e
       \<and> parking_fee e = PDecimal (Decimal 22500 (- 2))
       \<and> is_decimal (parking_fee e) \<and> \<not> is_float (parking_fee e)"
proof -
  have g: "given_vehicle_number (Some decimal_fee_data) = PStr (str ''TEST123'')"
    by (simp add: given_vehicle_number_def decimal_fee_data_def dict_get_def)
  have f: "given_parking_fee (Some decimal_fee_data) = PDecimal (Decimal 22500 (- 2))"
    by (simp add: given_parking_fee_def decimal_fee_data_def dict_get_def)
  from init_total[OF g] obtain e
    where e: "ParkingEntry_init latin1_toupper (str ''2024-01-15T10:00:00'') (str ''2024-01-15T10:00:00'') (Some decimal_fee_data) = Inr e"
    by blast
  from parking_fee_kept_as_given[OF e] f
  have "parking_fee e = PDecimal (Decimal 22500 (- 2))" by simp
  with e show ?thesis by (auto simp: is_decimal_def is_float_def)
qed


section \<open>Exit times of validated records\<close>

lemma timestamps_try_ok:
  assumes "timestamps_try parse entry i = Inr []"
    and "dict_get entry ''exit_time'' PNone \<noteq> PStr (str ''N/A'')"
  shows "exit_ordered parse entry"
  using assms
  unfolding timestamps_try_def exit_ordered_def dict_item_def dict_get_def
  by (auto split: option.splits sum.splits if_splits)

lemma check_timestamps_ok:
  "check_timestamps parse entry i = Inr [] \<Longrightarrow> timestamps_try parse entry i = Inr []"
  unfolding check_timestamps_def by (auto split: sum.splits if_splits)

lemma validate_entry_content_errors:
  "\<exists>es. fst (snd (validate_entry_content parse pf entry i errs warns)) = errs @ es"
  unfolding validate_entry_content_def Let_def
  by (auto split: sum.splits prod.splits)

lemma validate_entry_content_ok:
  assumes "validate_entry_content parse pf entry i [] warns = (None, [], warns')"
  shows "check_timestamps parse entry i = Inr []"
proof -
  obtain es2 where 2: "check_vehicle_number entry i = Inr es2"
    using assms unfolding validate_entry_content_def Let_def
    by (cases "check_vehicle_number entry i") auto
  obtain es3 where 3: "check_timestamps parse entry i = Inr es3"
    using assms 2 unfolding validate_entry_content_def Let_def
    by (cases "check_timestamps parse entry i") auto
  obtain es4 where 4: "check_fee pf entry i = Inr es4"
    using assms 2 3 unfolding validate_entry_content_def Let_def
    by (cases "check_fee pf entry i") auto
  have "es3 = []"
    using assms 2 3 4 unfolding validate_entry_content_def Let_def
    by (auto split: prod.splits)
  with 3 show ?thesis by simp
qed

lemma validate_step_errors:
  "\<exists>es. fst (validate_step parse pf i entry st) = fst st @ es"
proof -
  obtain errs warns stats where st: "st = (errs, warns, stats)"
    by (cases st) auto
  obtain exc errs' warns' where v:
    "validate_entry_content parse pf entry i errs warns = (exc, errs', warns')"
    by (cases "validate_entry_content parse pf entry i errs warns") auto
  from validate_entry_content_errors[of parse pf entry i errs warns] v
  obtain es where "errs' = errs @ es" by auto
  then show ?thesis
    unfolding validate_step_def st Let_def using v
    by (cases exc) auto
qed

lemma validate_entries_errors:
  "\<exists>es. fst (validate_entries parse pf i data st) = fst st @ es"
proof (induction data arbitrary: i st)
  case Nil
  then show ?case by simp
next
  case (Cons entry rest)
  from Cons.IH[of "Suc i" "validate_step parse pf i entry st"]
  obtain es where 1: "fst (validate_entries parse pf (Suc i) rest (validate_step parse pf i entry st))
      = fst (validate_step parse pf i entry st) @ es" by blast
  from validate_step_errors[of parse pf i entry st]
  obtain es' where 2: "fst (validate_step parse pf i entry st) = fst st @ es'" by blast
  show ?case by (simp add: 1 2)
qed

lemma validate_entries_each:
  assumes "fst (validate_entries parse pf i data st) = []" and "entry \<in> set data"
  shows "\<exists>j st'. fst st' = [] \<and> fst (validate_step parse pf j entry st') = []"
  using assms
proof (induction data arbitrary: i st)
  case Nil
  then show ?case by simp
next
  case (Cons first rest)
  let ?st1 = "validate_step parse pf i first st"
  from validate_entries_errors[of parse pf "Suc i" rest ?st1] Cons.prems(1)
  have s1: "fst ?st1 = []" by auto
  with validate_step_errors[of parse pf i first st]
  have s0: "fst st = []" by auto
  show ?case
  proof (cases "entry = first")
    case True
    with s0 s1 show ?thesis by blast
  next
    case False
    with Cons.prems have "entry \<in> set rest"
      and "fst (validate_entries parse pf (Suc i) rest ?st1) = []" by auto
    then show ?thesis using Cons.IH by blast
  qed
qed

lemma validate_step_ok:
  assumes "fst (validate_step parse pf j entry st) = []" and "fst st = []"
  shows "check_timestamps parse entry j = Inr []"
proof -
  obtain warns stats where st: "st = ([], warns, stats)"
    using assms(2) by (cases st) auto
  obtain exc errs' warns' where v:
    "validate_entry_content parse pf entry j [] warns = (exc, errs', warns')"
    by (cases "validate_entry_content parse pf entry j [] warns") auto
  have nomiss: "filter (\<lambda>field. entry field = None) required_fields = []"
    using assms(1) unfolding validate_step_def st Let_def
    by (auto split: if_splits)
  have "exc = None \<and> errs' = []"
    using assms(1) nomiss v unfolding validate_step_def st Let_def
    by (cases exc) auto
  with v show ?thesis
    using validate_entry_content_ok by blast
qed

text \<open>
  Claim C6, as stated, fails: nothing in the code requires a record marked \<open>Exited\<close> to
  have an exit time. The validator accepts such a record with the sentinel \<open>N/A\<close>
  without an error, and \<open>ParkingEntry.__init__\<close> builds it as given.
\<close>

theorem exited_without_exit_time_accepted:
  "is_valid (validate_json_structure iso_examples no_float_strings [exited_without_exit])
   \<and> \<not> exited_has_exit_time iso_examples exited_without_exit
   \<and> \<not> isl (ParkingEntry_init latin1_toupper (str ''2024-01-15T10:00:00'') (str ''2024-01-15T10:00:00'') (Some exited_without_exit))
   \<and> \<not> exited_has_exit_time iso_examples
         (to_dict (projr (ParkingEntry_init latin1_toupper (str ''2024-01-15T10:00:00'') (str ''2024-01-15T10:00:00'')
                            (Some exited_without_exit))))"
proof -
  have 1: "is_valid (validate_json_structure iso_examples no_float_strings [exited_without_exit])"
    by code_simp
  have 2: "\<not> exited_has_exit_time iso_examples exited_without_exit"
    by (simp add: exited_has_exit_time_def exited_without_exit_def dict_get_def)
  have 3: "\<not> isl (ParkingEntry_init latin1_toupper (str ''2024-01-15T10:00:00'') (str ''2024-01-15T10:00:00'') (Some exited_without_exit))"
    by (simp add: ParkingEntry_init_def exited_without_exit_def str_upper_def dict_get_def)
  have 4: "\<not> exited_has_exit_time iso_examples
         (to_dict (projr (ParkingEntry_init latin1_toupper (str ''2024-01-15T10:00:00'') (str ''2024-01-15T10:00:00'')
                            (Some exited_without_exit))))"
    by (simp add: ParkingEntry_init_def exited_without_exit_def str_upper_def dict_get_def
        exited_has_exit_time_def to_dict_def)
  from 1 2 3 4 show ?thesis by simp
qed

text \<open>
  Claim C6, amended. In every list of records the validator accepts (no error at all),
  a record whose exit time is not the sentinel \<open>N/A\<close> has an entry time and an exit time
  that parse as timestamps, and the exit time is not before the entry time, whatever the
  status; so an accepted \<open>Exited\<close> record that has an exit time satisfies the invariant.
  A record marked \<open>Exited\<close> is not required to have one.
\<close>

theorem validated_exit_not_before_entry:
  assumes "is_valid (validate_json_structure parse parse_float data)"
    and "entry \<in> set data"
    and "dict_get entry ''exit_time'' PNone \<noteq> PStr (str ''N/A'')"
  shows "exit_ordered parse entry \<and> exited_has_exit_time parse entry"
proof -
  let ?st0 = "([], [], \<lparr>total_entries = length data, parked_vehicles = 0,
                        exited_vehicles = 0, invalid_entries = 0\<rparr>)"
  have "fst (validate_entries parse parse_float 0 data ?st0) = []"
    using assms(1) unfolding validate_json_structure_def
    by (auto split: prod.splits)
  from validate_entries_each[OF this assms(2)]
  obtain j st' where "fst st' = []" "fst (validate_step parse parse_float j entry st') = []"
    by blast
  then have "check_timestamps parse entry j = Inr []"
    using validate_step_ok by blast
  then have "exit_ordered parse entry"
    using assms(3) check_timestamps_ok timestamps_try_ok by blast
  then show ?thesis
    using assms(3) by (simp add: exited_has_exit_time_def)
qed

theorem validated_exit_not_before_entry_witness:
  "is_valid (validate_json_structure iso_examples no_float_strings [exited_after_hour])
   \<and> dict_get exited_after_hour ''exit_time'' PNone \<noteq> PStr (str ''N/A'')
   \<and> dict_get exited_after_hour ''status'' PNone = PStr (str ''Exited'')
   \<and> exit_ordered iso_examples exited_after_hour
   \<and> exited_has_exit_time iso_examples exited_after_hour"
proof -
  have 1: "is_valid (validate_json_structure iso_examples no_float_strings [exited_after_hour])"
    by code_simp
  have 2: "dict_get exited_after_hour ''exit_time'' PNone \<noteq> PStr (str ''N/A'')"
    by (simp add: exited_after_hour_def dict_get_def)
  have 3: "dict_get exited_after_hour ''status'' PNone = PStr (str ''Exited'')"
    by (simp add: exited_after_hour_def dict_get_def)
  from validated_exit_not_before_entry[OF 1 _ 2] 1 2 3 show ?thesis by simp
qed


section \<open>Inserting a duplicate natural key\<close>

lemma insert_entry_failure_unchanged:
  "fst (insert_entry ts db entry) \<noteq> None \<Longrightarrow> snd (insert_entry ts db entry) = db"
  unfolding insert_entry_def Let_def
  by (auto split: sum.splits option.splits)

lemma constraint_failure_conflict:
  "unique_conflict rows row \<Longrightarrow> constraint_failure rows row \<noteq> None"
  unfolding constraint_failure_def by simp

text \<open>
  Whatever the values of a duplicate are, the statement fails and the table stays as it
  was: no row is added or changed.
\<close>

lemma duplicate_insert_fails_unchanged:
  assumes "key_exists db entry"
  shows "\<exists>err. insert_entry ts db entry = (Some err, db)"
proof (cases "bind_int (d_serial_number entry)")
  case (Inl err)
  then show ?thesis by (simp add: insert_entry_def)
next
  case serial: (Inr n)
  show ?thesis
  proof (cases "bind_number (d_fee entry)")
    case (Inl err)
    with serial show ?thesis by (simp add: insert_entry_def)
  next
    case fee: (Inr f)
    from assms have "constraint_failure (parking_entries db)
        \<lparr> c_id = new_rowid db, c_serial_number = n,
          c_transport_name = d_transport_name entry, c_vehicle_type = d_vehicle_type entry,
          c_vehicle_number = d_vehicle_number entry, c_driver_name = d_driver_name entry,
          c_driver_contact = d_driver_contact entry, c_location = d_location entry,
          c_notes = d_notes entry, c_entry_time = d_entry_time entry,
          c_exit_time = d_exit_time entry, c_status = d_status entry,
          c_fee = numeric_affinity f, c_payment_status = d_payment_status entry,
          c_payment_type = d_payment_type entry, c_created_by = d_created_by entry,
          c_created_at = ts, c_last_modified = d_last_modified entry \<rparr> \<noteq> None"
      by (intro constraint_failure_conflict) (simp add: unique_conflict_def key_exists_def)
    with serial fee show ?thesis
      by (auto simp: insert_entry_def Let_def)
  qed
qed

text \<open>
  The fee \<open>transform_entry\<close> supplies is always a \<open>Decimal\<close>, for which the driver has no
  adapter: whatever the table holds, the statement stops while its parameters are bound,
  before any constraint is looked at.
\<close>

lemma decimal_fee_never_binds:
  assumes "d_fee entry = NDecimal d"
  shows "insert_entry ts db entry =
     (Some (if - (2 ^ 63) \<le> d_serial_number entry \<and> d_serial_number entry < 2 ^ 63
            then ProgrammingError else BindOverflow), db)"
  using assms by (simp add: insert_entry_def bind_int_def bind_number_def)

text \<open>
  The table itself would report the duplicate: with the fee of the example bound as the
  integer 225, the same entry is rejected for \<open>UNIQUE (vehicle_number, entry_time)\<close>.
\<close>

lemma unique_violation_behind_binding:
  "insert_entry (str ''2024-01-15 11:00:00'') one_trailer_db (trailer_entry\<lparr>d_fee := NInt 225\<rparr>)
     = (Some (IntegrityError (UniqueFailed [''vehicle_number'', ''entry_time''])), one_trailer_db)"
  by (simp add: insert_entry_def one_trailer_db_def trailer_entry_def bind_int_def
      bind_number_def numeric_affinity_def constraint_failure_def check_in_def
      unique_conflict_def Let_def)

text \<open>
  Claim C4 on the code. The table of the example holds a Trailer; the entry is the one
  \<open>transform_entry\<close> builds for a record with the same vehicle number and entry time.
  Its natural key is in the table, and \<open>_insert_entry\<close> leaves the table unchanged, but
  the error it raises is the driver's \<open>ProgrammingError\<close> for the \<open>Decimal\<close> fee, not the
  violation of the uniqueness constraint: the duplicate key is never detected.
\<close>

theorem duplicate_insert_raises_programming_error:
  "key_exists one_trailer_db trailer_entry
   \<and> d_fee trailer_entry = NDecimal (Decimal 225 0)
   \<and> insert_entry (str ''2024-01-15 11:00:00'') one_trailer_db trailer_entry
       = (Some ProgrammingError, one_trailer_db)
   \<and> fst (insert_entry (str ''2024-01-15 11:00:00'') one_trailer_db trailer_entry)
       \<noteq> Some (IntegrityError (UniqueFailed [''vehicle_number'', ''entry_time'']))"
proof -
  have 1: "key_exists one_trailer_db trailer_entry"
    by (simp add: key_exists_def one_trailer_db_def trailer_entry_def)
  have 2: "d_fee trailer_entry = NDecimal (Decimal 225 0)"
    by (simp add: trailer_entry_def)
  have 3: "insert_entry (str ''2024-01-15 11:00:00'') one_trailer_db trailer_entry
       = (Some ProgrammingError, one_trailer_db)"
    by (simp add: decimal_fee_never_binds[OF 2]) (simp add: trailer_entry_def)
  from 1 2 3 show ?thesis by simp
qed


section \<open>Conflict detection on equal snapshots\<close>

text \<open>
  Claim C5. For every snapshot \<open>x\<close>, \<open>detect(x, x)\<close> is \<open>None\<close>; and two snapshots of
  live records that agree field by field are no conflict either.
\<close>

theorem detect_equal_snapshots:
  "detect window x x = None
   \<and> (\<forall>l r. vehicle l = vehicle r \<and> descriptive l = descriptive r \<and> entered l = entered r \<and>
             departed l = departed r \<and> state l = state r \<and> fee l = fee r \<and>
             payment l = payment r \<and> remarks l = remarks r \<and> modified l = modified r \<and>
             origin l = origin r \<longrightarrow> detect window (Live l) (Live r) = None)"
proof (intro conjI allI impI)
  show "detect window x x = None"
    by (simp add: detect_def)
next
  fix l r :: entity
  assume "vehicle l = vehicle r \<and> descriptive l = descriptive r \<and> entered l = entered r \<and>
             departed l = departed r \<and> state l = state r \<and> fee l = fee r \<and>
             payment l = payment r \<and> remarks l = remarks r \<and> modified l = modified r \<and>
             origin l = origin r"
  then have "l = r" by simp
  then show "detect window (Live l) (Live r) = None"
    by (simp add: detect_def)
qed

theorem detect_equal_snapshots_witness:
  "detect 600000000 (Live local_test123) (Live local_test123) = None
   \<and> detect 600000000 (Live (remote_test123\<lparr>state := Exited\<rparr>))
        (Live (local_test123\<lparr>fee := 20000, payment := Unpaid, modified := 63840909300000000\<rparr>)) = None"
proof -
  let ?l = "remote_test123\<lparr>state := Exited\<rparr>"
  let ?r = "local_test123\<lparr>fee := 20000, payment := Unpaid, modified := 63840909300000000\<rparr>"
  have eq: "vehicle ?l = vehicle ?r \<and> descriptive ?l = descriptive ?r \<and> entered ?l = entered ?r \<and>
             departed ?l = departed ?r \<and> state ?l = state ?r \<and> fee ?l = fee ?r \<and>
             payment ?l = payment ?r \<and> remarks ?l = remarks ?r \<and> modified ?l = modified ?r \<and>
             origin ?l = origin ?r"
    by (simp add: remote_test123_def local_test123_def)
  from detect_equal_snapshots[of 600000000 "Live local_test123"] eq
  show ?thesis by blast
qed


section \<open>Automatic resolution of the exit scenario\<close>






section \<open>Draining the operation queue\<close>

lemma dequeue_ready_subset:
  "set (dequeue_ready now limit q) \<subseteq> {op \<in> set (operations q). eligible now op}"
proof -
  have "set (dequeue_ready now limit q)
      \<subseteq> set (sort_key (\<lambda>op. (priority op, enqueued_at op)) (filter (eligible now) (operations q)))"
    unfolding dequeue_ready_def by (rule set_take_subset)
  then show ?thesis by auto
qed

lemma dequeue_ready_sorted_keys:
  "sorted (map (\<lambda>op. (priority op, enqueued_at op)) (dequeue_ready now limit q))"
proof -
  let ?f = "\<lambda>op. (priority op, enqueued_at op)"
  have "sorted (map ?f (sort_key ?f (filter (eligible now) (operations q))))"
    by (rule sorted_sort_key)
  then have "sorted (take limit (map ?f (sort_key ?f (filter (eligible now) (operations q)))))"
    by (rule sorted_wrt_take)
  then show ?thesis
    by (simp add: dequeue_ready_def take_map)
qed

lemma three_enqueued_order:
  assumes "t1 \<le> t2" and "t2 \<le> t3" and "t3 \<le> now" and "3 \<le> limit"
  shows "map op_id (dequeue_ready now limit (three_enqueued t1 t2 t3)) = [1, 2, 0]"
    and "map priority (dequeue_ready now limit (three_enqueued t1 t2 t3)) = [1, 1, 2]"
  using assms
  by (simp_all add: dequeue_ready_def three_enqueued_def enqueue_def empty_queue_def eligible_def)

lemma mark_failed_not_ready:
  assumes "0 < retry_delay"
    and "op \<in> set (dequeue_ready now limit (mark_failed now ident err retry_delay q))"
  shows "op_id op \<noteq> ident"
proof
  assume same: "op_id op = ident"
  from assms(2) dequeue_ready_subset
  have mem: "op \<in> set (operations (mark_failed now ident err retry_delay q))"
    and el: "eligible now op" by blast+
  from mem obtain op0 where "op0 \<in> set (operations q)"
    and op: "op = (if op_id op0 = ident
               then op0\<lparr> op_state := OpPending, attempts := Suc (attempts op0),
                         next_retry := now + retry_delay, last_error := Some err \<rparr>
               else op0)"
    by (auto simp: mark_failed_def)
  with same have "next_retry op = now + retry_delay"
    by (auto split: if_splits)
  with el assms(1) show False
    by (simp add: eligible_def)
qed

text \<open>
  Claim C2. In every state of the queue, \<open>dequeue_ready\<close> returns only operations of the
  queue that are pending and whose next eligible retry is not after the current time,
  at most \<open>limit\<close> of them and all of them when the limit allows; the result is ordered
  by priority ascending and, among equal priorities, by enqueue time ascending. An
  operation just marked failed with a positive retry delay is not returned. Three
  operations enqueued with priorities 2, 1 and 1 are returned as the second, the third
  (the two of priority 1, in enqueue order) and then the first.
\<close>

theorem dequeue_ready_eligible_ordered:
  "(\<forall>op \<in> set (dequeue_ready now limit q).
        op \<in> set (operations q) \<and> op_state op = OpPending \<and> next_retry op \<le> now)
   \<and> length (dequeue_ready now limit q) \<le> limit
   \<and> (length (filter (eligible now) (operations q)) \<le> limit \<longrightarrow>
        set (dequeue_ready now limit q) = {op \<in> set (operations q). eligible now op})
   \<and> sorted_wrt (\<lambda>a b. priority a < priority b \<or>
                        (priority a = priority b \<and> enqueued_at a \<le> enqueued_at b))
        (dequeue_ready now limit q)
   \<and> (0 < retry_delay \<longrightarrow>
        (\<forall>op \<in> set (dequeue_ready now limit (mark_failed now ident err retry_delay q)).
           op_id op \<noteq> ident))
   \<and> (t1 \<le> t2 \<and> t2 \<le> t3 \<and> t3 \<le> now \<and> 3 \<le> limit \<longrightarrow>
        map op_id (dequeue_ready now limit (three_enqueued t1 t2 t3)) = [1, 2, 0]
        \<and> map priority (dequeue_ready now limit (three_enqueued t1 t2 t3)) = [1, 1, 2])"
proof (intro conjI ballI impI)
  fix op assume "op \<in> set (dequeue_ready now limit q)"
  with dequeue_ready_subset[of now limit q]
  have "op \<in> set (operations q)" "eligible now op" by auto
  then show "op \<in> set (operations q)" "op_state op = OpPending" "next_retry op \<le> now"
    by (simp_all add: eligible_def)
next
  show "length (dequeue_ready now limit q) \<le> limit"
    by (simp add: dequeue_ready_def)
next
  assume "length (filter (eligible now) (operations q)) \<le> limit"
  then show "set (dequeue_ready now limit q) = {op \<in> set (operations q). eligible now op}"
    by (simp add: dequeue_ready_def)
next
  have "sorted_wrt (\<lambda>a b. (priority a, enqueued_at a) \<le> (priority b, enqueued_at b))
          (dequeue_ready now limit q)"
    using dequeue_ready_sorted_keys[of now limit q] by (simp add: sorted_map)
  then show "sorted_wrt (\<lambda>a b. priority a < priority b \<or>
                        (priority a = priority b \<and> enqueued_at a \<le> enqueued_at b))
        (dequeue_ready now limit q)"
    by (rule sorted_wrt_mono_rel[rotated]) auto
next
  fix op
  assume "0 < retry_delay"
    and "op \<in> set (dequeue_ready now limit (mark_failed now ident err retry_delay q))"
  then show "op_id op \<noteq> ident" by (rule mark_failed_not_ready)
next
  assume a: "t1 \<le> t2 \<and> t2 \<le> t3 \<and> t3 \<le> now \<and> 3 \<le> limit"
  then show "map op_id (dequeue_ready now limit (three_enqueued t1 t2 t3)) = [1, 2, 0]"
    using three_enqueued_order(1) by blast
  from a show "map priority (dequeue_ready now limit (three_enqueued t1 t2 t3)) = [1, 1, 2]"
    using three_enqueued_order(2) by blast
qed

theorem dequeue_ready_eligible_ordered_witness:
  "map op_id (dequeue_ready 10 5 (three_enqueued 1 2 3)) = [1, 2, 0]
   \<and> map priority (dequeue_ready 10 5 (three_enqueued 1 2 3)) = [1, 1, 2]
   \<and> length (dequeue_ready 10 5 (three_enqueued 1 2 3)) \<le> 5"
proof -
  note main = dequeue_ready_eligible_ordered[of 10 5 "three_enqueued 1 2 3" 30 1 "''timeout''" 1 2 3]
  have times: "(1::int) \<le> 2 \<and> (2::int) \<le> 3 \<and> (3::int) \<le> 10 \<and> (3::nat) \<le> 5"
    by simp
  from main have a: "length (dequeue_ready 10 5 (three_enqueued 1 2 3)) \<le> 5" by blast
  from main times have d: "map op_id (dequeue_ready 10 5 (three_enqueued 1 2 3)) = [1, 2, 0]
      \<and> map priority (dequeue_ready 10 5 (three_enqueued 1 2 3)) = [1, 1, 2]" by blast
  from a d show ?thesis by blast
qed


section \<open>Partial failure in the push phase\<close>

lemma upsert_rows:
  "stored_rows (upsert_sync_metadata i m s)
     = map (\<lambda>r. if local_id r = i then r\<lparr>metadata := m\<rparr> else r) (stored_rows s)"
  by (simp add: upsert_sync_metadata_def)

lemma upsert_next_id:
  "next_local_id (upsert_sync_metadata i m s) = next_local_id s"
  by (simp add: upsert_sync_metadata_def)

lemma upsert_twice_rows:
  "stored_rows (upsert_sync_metadata i m2 (upsert_sync_metadata i m1 s))
     = map (\<lambda>r. if local_id r = i then r\<lparr>metadata := m2\<rparr> else r) (stored_rows s)"
  by (simp add: upsert_rows comp_def if_distrib cong: if_cong)

lemma same_id_same_row:
  assumes "distinct (map local_id rows)" and "a \<in> set rows" and "b \<in> set rows"
    and "local_id a = local_id b"
  shows "a = b"
  using assms by (meson distinct_map inj_onD)

lemma push_items_effect:
  assumes "distinct (map local_id (stored_rows s))"
    and "distinct (map local_id batch)"
    and "set batch \<subseteq> set (stored_rows s)"
  shows "stored_rows (fst (push_items rc now batch (s, res)))
           = map (\<lambda>r. if r \<in> set batch then r\<lparr>metadata := pushed_metadata rc now r\<rparr> else r)
                 (stored_rows s)
       \<and> next_local_id (fst (push_items rc now batch (s, res))) = next_local_id s
       \<and> synced (snd (push_items rc now batch (s, res)))
           = synced res + length (filter (push_succeeds rc) batch)
       \<and> failed (snd (push_items rc now batch (s, res)))
           = failed res + length (filter (\<lambda>r. \<not> push_succeeds rc r) batch)
       \<and> conflicts (snd (push_items rc now batch (s, res))) = conflicts res"
  using assms
proof (induction batch arbitrary: s res)
  case Nil
  then show ?case by simp
next
  case (Cons b rest)
  let ?s2 = "upsert_sync_metadata (local_id b) (pushed_metadata rc now b)
               (upsert_sync_metadata (local_id b) ((metadata b)\<lparr>sync_state := Syncing\<rparr>) s)"
  let ?res2 = "if push_succeeds rc b then res\<lparr>synced := synced res + 1\<rparr>
               else res\<lparr>failed := failed res + 1\<rparr>"
  let ?b' = "b\<lparr>metadata := pushed_metadata rc now b\<rparr>"
  have step: "push_items rc now (b # rest) (s, res) = push_items rc now rest (?s2, ?res2)"
    by (simp add: Let_def)
  have b_in: "b \<in> set (stored_rows s)"
    using Cons.prems(3) by simp
  have rows2: "stored_rows ?s2 = map (\<lambda>r. if r = b then ?b' else r) (stored_rows s)"
  proof -
    have "stored_rows ?s2
        = map (\<lambda>r. if local_id r = local_id b then r\<lparr>metadata := pushed_metadata rc now b\<rparr> else r)
              (stored_rows s)"
      by (rule upsert_twice_rows)
    also have "\<dots> = map (\<lambda>r. if r = b then ?b' else r) (stored_rows s)"
    proof (rule map_cong[OF refl])
      fix r assume "r \<in> set (stored_rows s)"
      then have "local_id r = local_id b \<longleftrightarrow> r = b"
        using same_id_same_row[OF Cons.prems(1) _ b_in] by auto
      then show "(if local_id r = local_id b then r\<lparr>metadata := pushed_metadata rc now b\<rparr> else r)
          = (if r = b then ?b' else r)" by auto
    qed
    finally show ?thesis .
  qed
  have ids2: "map local_id (stored_rows ?s2) = map local_id (stored_rows s)"
    by (simp add: rows2 comp_def if_distrib cong: if_cong)
  have d2: "distinct (map local_id (stored_rows ?s2))"
    using Cons.prems(1) ids2 by simp
  have drest: "distinct (map local_id rest)"
    using Cons.prems(2) by simp
  have rest_ids: "\<And>x. x \<in> set rest \<Longrightarrow> local_id x \<noteq> local_id b"
    using Cons.prems(2) by (metis distinct.simps(2) image_eqI list.simps(9) set_map)
  have sub2: "set rest \<subseteq> set (stored_rows ?s2)"
  proof
    fix x assume x: "x \<in> set rest"
    then have "x \<in> set (stored_rows s)" "x \<noteq> b"
      using Cons.prems(3) rest_ids by auto
    then show "x \<in> set (stored_rows ?s2)"
      unfolding rows2 by (auto simp: image_iff intro!: bexI[of _ x])
  qed
  note IH = Cons.IH[OF d2 drest sub2, of ?res2]
  have b'_notin: "?b' \<notin> set rest"
  proof
    assume "?b' \<in> set rest"
    from rest_ids[OF this] show False by simp
  qed
  have rows: "stored_rows (fst (push_items rc now (b # rest) (s, res)))
      = map (\<lambda>r. if r \<in> set (b # rest) then r\<lparr>metadata := pushed_metadata rc now r\<rparr> else r)
            (stored_rows s)"
  proof -
    have "stored_rows (fst (push_items rc now (b # rest) (s, res)))
        = map (\<lambda>r. if r \<in> set rest then r\<lparr>metadata := pushed_metadata rc now r\<rparr> else r)
              (map (\<lambda>r. if r = b then ?b' else r) (stored_rows s))"
      using IH by (simp only: step rows2)
    also have "\<dots> = map (\<lambda>r. if r \<in> set (b # rest) then r\<lparr>metadata := pushed_metadata rc now r\<rparr> else r)
            (stored_rows s)"
      unfolding map_map
    proof (rule map_cong[OF refl])
      fix r assume "r \<in> set (stored_rows s)"
      show "((\<lambda>r. if r \<in> set rest then r\<lparr>metadata := pushed_metadata rc now r\<rparr> else r) \<circ>
             (\<lambda>r. if r = b then ?b' else r)) r
          = (if r \<in> set (b # rest) then r\<lparr>metadata := pushed_metadata rc now r\<rparr> else r)"
        using b'_notin by (cases "r = b") auto
    qed
    finally show ?thesis .
  qed
  have nxt: "next_local_id (fst (push_items rc now (b # rest) (s, res))) = next_local_id s"
    using IH by (simp only: step upsert_next_id)
  have cnt: "synced (snd (push_items rc now (b # rest) (s, res)))
           = synced res + length (filter (push_succeeds rc) (b # rest))
       \<and> failed (snd (push_items rc now (b # rest) (s, res)))
           = failed res + length (filter (\<lambda>r. \<not> push_succeeds rc r) (b # rest))
       \<and> conflicts (snd (push_items rc now (b # rest) (s, res))) = conflicts res"
    using IH unfolding step by (cases "push_succeeds rc b") simp_all
  from rows nxt cnt show ?case by blast
qed

lemma metadata_of_mapped:
  assumes "distinct (map local_id rows)" and "r \<in> set rows"
    and "\<And>x. local_id (g x) = local_id x"
  shows "map_of (map (\<lambda>x. (local_id x, metadata x)) (map g rows)) (local_id r)
           = Some (metadata (g r))"
proof (rule map_of_is_SomeI)
  show "distinct (map fst (map (\<lambda>x. (local_id x, metadata x)) (map g rows)))"
    using assms(1,3) by (simp add: comp_def)
  show "(local_id r, metadata (g r)) \<in> set (map (\<lambda>x. (local_id x, metadata x)) (map g rows))"
    using assms(2,3) by (auto simp: image_iff intro!: bexI[of _ r])
qed

lemma pushed_metadata_success:
  "push_succeeds rc r \<Longrightarrow>
     sync_state (pushed_metadata rc now r) = Synced \<and> \<not> dirty (pushed_metadata rc now r)"
  by (auto simp: push_succeeds_def pushed_metadata_def split: sum.splits)

lemma pushed_metadata_failure:
  "\<not> push_succeeds rc r \<Longrightarrow>
     sync_state (pushed_metadata rc now r) = SyncPending \<and> dirty (pushed_metadata rc now r)"
  by (auto simp: push_succeeds_def pushed_metadata_def split: sum.splits)

text \<open>
  Claim C3. Take a store whose local identifiers are distinct and a reachable remote
  side, some of whose calls fail. The push phase goes through the whole batch of dirty
  entities: it counts exactly the successful calls as synced and exactly the failed
  ones as failed, and reports no conflicts. Afterwards every pushed entity whose call
  succeeded has metadata \<open>synced\<close>, \<open>dirty = false\<close>, every one whose call failed has
  \<open>pending\<close>, \<open>dirty = true\<close>, and every entity that was not dirty has the metadata it
  had; identifiers and contents are untouched. With three dirty entities of which the
  second fails, the result is 2 synced and 1 failed.
\<close>

theorem push_partial_failure_isolated:
  assumes "unique_ids s" and "checkConnectivity rc"
  shows
    "synced (snd (push_phase rc now s))
        = length (filter (push_succeeds rc) (get_dirty_entities s))
     \<and> failed (snd (push_phase rc now s))
        = length (filter (\<lambda>r. \<not> push_succeeds rc r) (get_dirty_entities s))
     \<and> conflicts (snd (push_phase rc now s)) = 0
     \<and> map local_id (stored_rows (fst (push_phase rc now s))) = map local_id (stored_rows s)
     \<and> map content (stored_rows (fst (push_phase rc now s))) = map content (stored_rows s)
     \<and> (\<forall>r \<in> set (stored_rows s).
          (dirty (metadata r) \<and> push_succeeds rc r \<longrightarrow>
             (\<exists>m. metadata_of (fst (push_phase rc now s)) (local_id r) = Some m
                  \<and> sync_state m = Synced \<and> \<not> dirty m))
        \<and> (dirty (metadata r) \<and> \<not> push_succeeds rc r \<longrightarrow>
             (\<exists>m. metadata_of (fst (push_phase rc now s)) (local_id r) = Some m
                  \<and> sync_state m = SyncPending \<and> dirty m))
        \<and> (\<not> dirty (metadata r) \<longrightarrow>
             metadata_of (fst (push_phase rc now s)) (local_id r) = Some (metadata r)))
     \<and> (\<forall>a b c. get_dirty_entities s = [a, b, c] \<and> push_succeeds rc a \<and>
                 \<not> push_succeeds rc b \<and> push_succeeds rc c \<longrightarrow>
          synced (snd (push_phase rc now s)) = 2 \<and> failed (snd (push_phase rc now s)) = 1)"
proof -
  let ?batch = "get_dirty_entities s"
  let ?g = "\<lambda>r. if r \<in> set ?batch then r\<lparr>metadata := pushed_metadata rc now r\<rparr> else r"
  let ?out = "push_phase rc now s"
  have d: "distinct (map local_id (stored_rows s))"
    using assms(1) by (simp add: unique_ids_def)
  have db: "distinct (map local_id ?batch)"
    using d by (simp add: get_dirty_entities_def distinct_map_filter)
  have sub: "set ?batch \<subseteq> set (stored_rows s)"
    by (auto simp: get_dirty_entities_def)
  have out: "?out = push_items rc now ?batch (s, \<lparr>synced = 0, failed = 0, conflicts = 0\<rparr>)"
    using assms(2) by (simp add: push_phase_def)
  note eff = push_items_effect[OF d db sub, of rc now "\<lparr>synced = 0, failed = 0, conflicts = 0\<rparr>",
      folded out]
  have rows: "stored_rows (fst ?out) = map ?g (stored_rows s)"
    using eff by blast
  have syn: "synced (snd ?out) = length (filter (push_succeeds rc) ?batch)"
    using eff by simp
  have fai: "failed (snd ?out) = length (filter (\<lambda>r. \<not> push_succeeds rc r) ?batch)"
    using eff by simp
  have con: "conflicts (snd ?out) = 0"
    using eff by simp
  have gid: "\<And>x. local_id (?g x) = local_id x" by simp
  have ids: "map local_id (stored_rows (fst ?out)) = map local_id (stored_rows s)"
    by (simp add: rows comp_def if_distrib cong: if_cong)
  have cont: "map content (stored_rows (fst ?out)) = map content (stored_rows s)"
    by (simp add: rows comp_def if_distrib cong: if_cong)
  have meta: "metadata_of (fst ?out) (local_id r) = Some (metadata (?g r))"
    if "r \<in> set (stored_rows s)" for r
    unfolding metadata_of_def rows
    by (rule metadata_of_mapped[OF d that gid])
  have per_row: "\<forall>r \<in> set (stored_rows s).
          (dirty (metadata r) \<and> push_succeeds rc r \<longrightarrow>
             (\<exists>m. metadata_of (fst ?out) (local_id r) = Some m
                  \<and> sync_state m = Synced \<and> \<not> dirty m))
        \<and> (dirty (metadata r) \<and> \<not> push_succeeds rc r \<longrightarrow>
             (\<exists>m. metadata_of (fst ?out) (local_id r) = Some m
                  \<and> sync_state m = SyncPending \<and> dirty m))
        \<and> (\<not> dirty (metadata r) \<longrightarrow>
             metadata_of (fst ?out) (local_id r) = Some (metadata r))"
  proof
    fix r assume r: "r \<in> set (stored_rows s)"
    have inb: "r \<in> set ?batch \<longleftrightarrow> dirty (metadata r)"
      using r by (simp add: get_dirty_entities_def)
    show "(dirty (metadata r) \<and> push_succeeds rc r \<longrightarrow>
             (\<exists>m. metadata_of (fst ?out) (local_id r) = Some m
                  \<and> sync_state m = Synced \<and> \<not> dirty m))
        \<and> (dirty (metadata r) \<and> \<not> push_succeeds rc r \<longrightarrow>
             (\<exists>m. metadata_of (fst ?out) (local_id r) = Some m
                  \<and> sync_state m = SyncPending \<and> dirty m))
        \<and> (\<not> dirty (metadata r) \<longrightarrow>
             metadata_of (fst ?out) (local_id r) = Some (metadata r))"
      using meta[OF r] inb pushed_metadata_success[of rc r now] pushed_metadata_failure[of rc r now]
      by auto
  qed
  have scen: "\<forall>a b c. get_dirty_entities s = [a, b, c] \<and> push_succeeds rc a \<and>
                 \<not> push_succeeds rc b \<and> push_succeeds rc c \<longrightarrow>
          synced (snd ?out) = 2 \<and> failed (snd ?out) = 1"
    using syn fai by auto
  from syn fai con ids cont per_row scen show ?thesis by blast
qed

theorem push_partial_failure_isolated_witness:
  "synced (snd (push_phase second_fails 63840909600000000 three_dirty_store)) = 2
   \<and> failed (snd (push_phase second_fails 63840909600000000 three_dirty_store)) = 1
   \<and> conflicts (snd (push_phase second_fails 63840909600000000 three_dirty_store)) = 0"
proof -
  have u: "unique_ids three_dirty_store"
    by (simp add: unique_ids_def three_dirty_store_def)
  have c: "checkConnectivity second_fails"
    by (simp add: second_fails_def)
  have rows: "get_dirty_entities three_dirty_store = stored_rows three_dirty_store"
    by (simp add: get_dirty_entities_def three_dirty_store_def)
  have rs: "stored_rows three_dirty_store =
      [\<lparr> local_id = 0, content = parked_vehicle ''TEST001'',
            metadata = \<lparr>remote_id = None, sync_state = SyncPending, dirty = True, last_synced = None\<rparr> \<rparr>,
          \<lparr> local_id = 1, content = parked_vehicle ''TEST002'',
            metadata = \<lparr>remote_id = None, sync_state = SyncPending, dirty = True, last_synced = None\<rparr> \<rparr>,
          \<lparr> local_id = 2, content = parked_vehicle ''TEST003'',
            metadata = \<lparr>remote_id = None, sync_state = SyncPending, dirty = True, last_synced = None\<rparr> \<rparr>]"
    by (simp add: three_dirty_store_def)
  have s1: "push_succeeds second_fails \<lparr> local_id = 0, content = parked_vehicle ''TEST001'',
            metadata = \<lparr>remote_id = None, sync_state = SyncPending, dirty = True, last_synced = None\<rparr> \<rparr>"
    by (simp add: push_succeeds_def push_call_def second_fails_def parked_vehicle_def)
  have s2: "\<not> push_succeeds second_fails \<lparr> local_id = 1, content = parked_vehicle ''TEST002'',
            metadata = \<lparr>remote_id = None, sync_state = SyncPending, dirty = True, last_synced = None\<rparr> \<rparr>"
    by (simp add: push_succeeds_def push_call_def second_fails_def parked_vehicle_def)
  have s3: "push_succeeds second_fails \<lparr> local_id = 2, content = parked_vehicle ''TEST003'',
            metadata = \<lparr>remote_id = None, sync_state = SyncPending, dirty = True, last_synced = None\<rparr> \<rparr>"
    by (simp add: push_succeeds_def push_call_def second_fails_def parked_vehicle_def)
  note main = push_partial_failure_isolated[OF u c, of 63840909600000000]
  from main have k: "conflicts (snd (push_phase second_fails 63840909600000000 three_dirty_store)) = 0"
    by blast
  from main rows rs s1 s2 s3
  have "synced (snd (push_phase second_fails 63840909600000000 three_dirty_store)) = 2
      \<and> failed (snd (push_phase second_fails 63840909600000000 three_dirty_store)) = 1"
    by metis
  with k show ?thesis by blast
qed


section \<open>Export and import of the store\<close>

lemma create_keeps_unique_keys:
  assumes "unique_keys s" and "create e s = Inr created"
  shows "unique_keys (snd created)"
proof -
  from assms(2) have fresh: "natural_key e \<notin> set (map (\<lambda>r. natural_key (content r)) (stored_rows s))"
    by (auto simp: create_def split: if_splits)
  from assms(2) have "map (\<lambda>r. natural_key (content r)) (stored_rows (snd created))
      = map (\<lambda>r. natural_key (content r)) (stored_rows s) @ [natural_key e]"
    by (auto simp: create_def split: if_splits)
  with assms(1) fresh show ?thesis
    by (simp add: unique_keys_def)
qed

lemma import_snapshot_appends:
  assumes "distinct (map natural_key es)"
    and "\<forall>e \<in> set es. \<forall>r \<in> set (stored_rows s). natural_key (content r) \<noteq> natural_key e"
  shows "\<exists>s'. import_snapshot es s = Inr s'
           \<and> map content (stored_rows s') = map content (stored_rows s) @ es"
  using assms
proof (induction es arbitrary: s)
  case Nil
  then show ?case by simp
next
  case (Cons e es)
  let ?row = "\<lparr> local_id = next_local_id s, content = e,
                 metadata = \<lparr> remote_id = None, sync_state = SyncPending,
                              dirty = True, last_synced = None \<rparr> \<rparr>"
  let ?s1 = "s\<lparr> stored_rows := stored_rows s @ [?row], next_local_id := Suc (next_local_id s) \<rparr>"
  from Cons.prems(2) have fresh: "\<not> (\<exists>r \<in> set (stored_rows s). natural_key (content r) = natural_key e)"
    by auto
  then have cr: "create e s = Inr (next_local_id s, ?s1)"
    by (simp add: create_def)
  have d: "distinct (map natural_key es)"
    using Cons.prems(1) by simp
  have "\<forall>e' \<in> set es. \<forall>r \<in> set (stored_rows ?s1). natural_key (content r) \<noteq> natural_key e'"
    using Cons.prems by auto
  from Cons.IH[OF d this] obtain s' where s': "import_snapshot es ?s1 = Inr s'"
    "map content (stored_rows s') = map content (stored_rows ?s1) @ es" by blast
  from cr s'(1) have "import_snapshot (e # es) s = Inr s'" by simp
  moreover from s'(2) have "map content (stored_rows s') = map content (stored_rows s) @ e # es"
    by simp
  ultimately show ?case by blast
qed

text \<open>
  Claim C8. For every state of the store (its natural keys being unique, as the store
  keeps them), \<open>export_snapshot\<close> followed by \<open>import_snapshot\<close> into a fresh, empty store
  succeeds and yields the same entities, field for field and in the same order; in
  particular the fee and the status of every entity are the original ones.
\<close>

theorem export_import_round_trip:
  assumes "unique_keys s"
  shows "\<exists>s'. import_snapshot (export_snapshot s) empty_store = Inr s'
           \<and> export_snapshot s' = export_snapshot s
           \<and> set (export_snapshot s') = set (export_snapshot s)
           \<and> map fee (export_snapshot s') = map fee (export_snapshot s)
           \<and> map state (export_snapshot s') = map state (export_snapshot s)"
proof -
  have d: "distinct (map natural_key (export_snapshot s))"
    using assms by (simp add: unique_keys_def export_snapshot_def comp_def)
  have "\<forall>e \<in> set (export_snapshot s). \<forall>r \<in> set (stored_rows empty_store).
          natural_key (content r) \<noteq> natural_key e"
    by (simp add: empty_store_def)
  from import_snapshot_appends[OF d this]
  obtain s' where "import_snapshot (export_snapshot s) empty_store = Inr s'"
    and "map content (stored_rows s') = map content (stored_rows empty_store) @ export_snapshot s"
    by blast
  then have "import_snapshot (export_snapshot s) empty_store = Inr s'"
    and "export_snapshot s' = export_snapshot s"
    by (simp_all add: export_snapshot_def empty_store_def)
  then show ?thesis by auto
qed

theorem export_import_round_trip_witness:
  "unique_keys three_dirty_store
   \<and> (\<exists>s'. import_snapshot (export_snapshot three_dirty_store) empty_store = Inr s'
         \<and> export_snapshot s' =
             [parked_vehicle ''TEST001'', parked_vehicle ''TEST002'', parked_vehicle ''TEST003''])"
proof -
  have u: "unique_keys three_dirty_store"
    by (simp add: unique_keys_def three_dirty_store_def natural_key_def parked_vehicle_def)
  have e: "export_snapshot three_dirty_store =
      [parked_vehicle ''TEST001'', parked_vehicle ''TEST002'', parked_vehicle ''TEST003'']"
    by (simp add: export_snapshot_def three_dirty_store_def)
  from export_import_round_trip[OF u] e u show ?thesis by auto
qed

end
